theory Spec2Isabelle
  imports Complex_Main "HOL-Library.Sublist"
begin

section \<open>Wash advisor service: configuration\<close>

text \<open>
  The constants of \<^verbatim>\<open>wash_advisor_service/app/config.py\<close> (class \<^verbatim>\<open>Settings\<close>).
  Python floats are modelled as reals, Python ints as integers.
\<close>

definition MIN_PRECIPITATION_THRESHOLD :: real where
  "MIN_PRECIPITATION_THRESHOLD = 3 / 10"

definition IDEAL_WASH_TEMPERATURE_MIN :: real where
  "IDEAL_WASH_TEMPERATURE_MIN = 5"

definition IDEAL_WASH_TEMPERATURE_MAX :: real where
  "IDEAL_WASH_TEMPERATURE_MAX = 25"

definition WIND_SPEED_THRESHOLD :: real where
  "WIND_SPEED_THRESHOLD = 30"

definition CACHE_RECOMMENDATION_HOURS :: int where
  "CACHE_RECOMMENDATION_HOURS = 24"

definition WEIGHT_PRECIPITATION :: real where
  "WEIGHT_PRECIPITATION = 4 / 10"

definition WEIGHT_TEMPERATURE :: real where
  "WEIGHT_TEMPERATURE = 3 / 10"

definition WEIGHT_WIND :: real where
  "WEIGHT_WIND = 2 / 10"

definition WEIGHT_HUMIDITY :: real where
  "WEIGHT_HUMIDITY = 1 / 10"

section \<open>Wash advisor service: scoring logic\<close>

subsection \<open>Data\<close>

text \<open>
  Errors of the Python code that the claims can reach are values: a pydantic
  \<^verbatim>\<open>ValidationError\<close>, SQLAlchemy's \<^verbatim>\<open>MultipleResultsFound\<close> and
  \<^verbatim>\<open>IntegrityError\<close>, a \<^verbatim>\<open>TypeError\<close>, and the HTTP errors raised by the handlers.
\<close>

datatype py_error =
    ValidationError
  | MultipleResultsFound
  | IntegrityError
  | TypeError
  | IndexError
  | DBError
  | HTTPError nat

text \<open>
  One day of the forecast as \<^verbatim>\<open>analyze_weather_day\<close> reads it from the dictionary
  \<^verbatim>\<open>weather_data\<close>: \<^verbatim>\<open>dict.get\<close> yields \<^verbatim>\<open>None\<close> for a missing key, hence the options.
  Dates are day numbers.
\<close>

record weather_data =
  wd_date :: int
  wd_temperature_avg :: "real option"
  wd_precipitation_probability :: "real option"
  wd_precipitation_amount :: "real option"
  wd_wind_speed :: "real option"
  wd_humidity :: "real option"
  wd_weather_description :: string

text \<open>
  The user context dictionary. The handler passes \<^verbatim>\<open>{}\<close> when there is no context and
  the code tests \<^verbatim>\<open>if user_context:\<close>, so \<open>None\<close> stands for both \<^verbatim>\<open>None\<close> and the
  empty dictionary.
\<close>

record user_context =
  days_since_last_wash :: "int option"
  is_interval_optimal :: "bool option"

text \<open>The dictionary returned by \<^verbatim>\<open>analyze_weather_day\<close>.\<close>

record analyzed_day =
  ad_date :: int
  ad_temperature :: "real option"
  ad_precipitation_probability :: "real option"
  ad_precipitation_amount :: "real option"
  ad_wind_speed :: "real option"
  ad_humidity :: "real option"
  ad_weather_description :: string
  ad_is_rain_expected :: bool
  ad_is_temperature_optimal :: bool
  ad_is_wind_acceptable :: bool
  ad_score :: "real option"
  ad_reason :: "string option"

text \<open>The \<^verbatim>\<open>factors\<close> dictionary and the pydantic model \<^verbatim>\<open>WashRecommendationDay\<close>.\<close>

record factors =
  f_is_rain_expected :: bool
  f_is_temperature_optimal :: bool
  f_is_wind_acceptable :: bool
  f_humidity :: "real option"

record wash_recommendation_day =
  rd_date :: int
  rd_is_recommended :: bool
  rd_score :: real
  rd_temperature :: "real option"
  rd_precipitation_probability :: "real option"
  rd_wind_speed :: "real option"
  rd_reason :: string
  rd_factors :: factors

text \<open>
  String primitives of Python that the reason text uses and that have no counterpart on
  byte strings: \<^verbatim>\<open>format(x, ".0f")\<close>, \<^verbatim>\<open>str(n)\<close> for an integer and \<^verbatim>\<open>str.lower\<close>.
  They are parameters of the model.
\<close>

record str_ops =
  fmt0 :: "real \<Rightarrow> string"
  str_int :: "int \<Rightarrow> string"
  lower :: "string \<Rightarrow> string"

subsection \<open>String literals\<close>

text \<open>
  The Russian literals of \<^verbatim>\<open>_generate_reason\<close>, as their UTF-8 bytes. Substring tests on
  the bytes agree with Python's tests on code points, UTF-8 being self-synchronising.
\<close>

definition STR_RAIN :: string where
  \<comment> \<open>High rain probability (\<close>
  "STR_RAIN =
    [CHR 0xD0, CHR 0x92, CHR 0xD1, CHR 0x8B, CHR 0xD1, CHR 0x81, CHR 0xD0, CHR 0xBE, CHR 0xD0, CHR 0xBA,
     CHR 0xD0, CHR 0xB0, CHR 0xD1, CHR 0x8F, CHR 0x20, CHR 0xD0, CHR 0xB2, CHR 0xD0, CHR 0xB5, CHR 0xD1,
     CHR 0x80, CHR 0xD0, CHR 0xBE, CHR 0xD1, CHR 0x8F, CHR 0xD1, CHR 0x82, CHR 0xD0, CHR 0xBD, CHR 0xD0,
     CHR 0xBE, CHR 0xD1, CHR 0x81, CHR 0xD1, CHR 0x82, CHR 0xD1, CHR 0x8C, CHR 0x20, CHR 0xD0, CHR 0xB4,
     CHR 0xD0, CHR 0xBE, CHR 0xD0, CHR 0xB6, CHR 0xD0, CHR 0xB4, CHR 0xD1, CHR 0x8F, CHR 0x20, CHR 0x28]"

definition STR_LOW_TEMP :: string where
  \<comment> \<open>Low temperature (\<close>
  "STR_LOW_TEMP =
    [CHR 0xD0, CHR 0x9D, CHR 0xD0, CHR 0xB8, CHR 0xD0, CHR 0xB7, CHR 0xD0, CHR 0xBA, CHR 0xD0, CHR 0xB0,
     CHR 0xD1, CHR 0x8F, CHR 0x20, CHR 0xD1, CHR 0x82, CHR 0xD0, CHR 0xB5, CHR 0xD0, CHR 0xBC, CHR 0xD0,
     CHR 0xBF, CHR 0xD0, CHR 0xB5, CHR 0xD1, CHR 0x80, CHR 0xD0, CHR 0xB0, CHR 0xD1, CHR 0x82, CHR 0xD1,
     CHR 0x83, CHR 0xD1, CHR 0x80, CHR 0xD0, CHR 0xB0, CHR 0x20, CHR 0x28]"

definition STR_HIGH_TEMP :: string where
  \<comment> \<open>High temperature (\<close>
  "STR_HIGH_TEMP =
    [CHR 0xD0, CHR 0x92, CHR 0xD1, CHR 0x8B, CHR 0xD1, CHR 0x81, CHR 0xD0, CHR 0xBE, CHR 0xD0, CHR 0xBA,
     CHR 0xD0, CHR 0xB0, CHR 0xD1, CHR 0x8F, CHR 0x20, CHR 0xD1, CHR 0x82, CHR 0xD0, CHR 0xB5, CHR 0xD0,
     CHR 0xBC, CHR 0xD0, CHR 0xBF, CHR 0xD0, CHR 0xB5, CHR 0xD1, CHR 0x80, CHR 0xD0, CHR 0xB0, CHR 0xD1,
     CHR 0x82, CHR 0xD1, CHR 0x83, CHR 0xD1, CHR 0x80, CHR 0xD0, CHR 0xB0, CHR 0x20, CHR 0x28]"

definition STR_DEG_C :: string where
  \<comment> \<open>degree sign, C, closing parenthesis\<close>
  "STR_DEG_C =
    [CHR 0xC2, CHR 0xB0, CHR 0x43, CHR 0x29]"

definition STR_WIND :: string where
  \<comment> \<open>Strong wind (\<close>
  "STR_WIND =
    [CHR 0xD0, CHR 0xA1, CHR 0xD0, CHR 0xB8, CHR 0xD0, CHR 0xBB, CHR 0xD1, CHR 0x8C, CHR 0xD0, CHR 0xBD,
     CHR 0xD1, CHR 0x8B, CHR 0xD0, CHR 0xB9, CHR 0x20, CHR 0xD0, CHR 0xB2, CHR 0xD0, CHR 0xB5, CHR 0xD1,
     CHR 0x82, CHR 0xD0, CHR 0xB5, CHR 0xD1, CHR 0x80, CHR 0x20, CHR 0x28]"

definition STR_KMH :: string where
  \<comment> \<open> km/h)\<close>
  "STR_KMH =
    [CHR 0x20, CHR 0xD0, CHR 0xBA, CHR 0xD0, CHR 0xBC, CHR 0x2F, CHR 0xD1, CHR 0x87, CHR 0x29]"

definition STR_OPTIMAL :: string where
  \<comment> \<open>Optimal interval (\<close>
  "STR_OPTIMAL =
    [CHR 0xD0, CHR 0x9E, CHR 0xD0, CHR 0xBF, CHR 0xD1, CHR 0x82, CHR 0xD0, CHR 0xB8, CHR 0xD0, CHR 0xBC,
     CHR 0xD0, CHR 0xB0, CHR 0xD0, CHR 0xBB, CHR 0xD1, CHR 0x8C, CHR 0xD0, CHR 0xBD, CHR 0xD1, CHR 0x8B,
     CHR 0xD0, CHR 0xB9, CHR 0x20, CHR 0xD0, CHR 0xB8, CHR 0xD0, CHR 0xBD, CHR 0xD1, CHR 0x82, CHR 0xD0,
     CHR 0xB5, CHR 0xD1, CHR 0x80, CHR 0xD0, CHR 0xB2, CHR 0xD0, CHR 0xB0, CHR 0xD0, CHR 0xBB, CHR 0x20,
     CHR 0x28]"

definition STR_OPTIMAL_END :: string where
  \<comment> \<open> days since the last wash)\<close>
  "STR_OPTIMAL_END =
    [CHR 0x20, CHR 0xD0, CHR 0xB4, CHR 0xD0, CHR 0xBD, CHR 0xD0, CHR 0xB5, CHR 0xD0, CHR 0xB9, CHR 0x20,
     CHR 0xD1, CHR 0x81, CHR 0x20, CHR 0xD0, CHR 0xBF, CHR 0xD0, CHR 0xBE, CHR 0xD1, CHR 0x81, CHR 0xD0,
     CHR 0xBB, CHR 0xD0, CHR 0xB5, CHR 0xD0, CHR 0xB4, CHR 0xD0, CHR 0xBD, CHR 0xD0, CHR 0xB5, CHR 0xD0,
     CHR 0xB9, CHR 0x20, CHR 0xD0, CHR 0xBC, CHR 0xD0, CHR 0xBE, CHR 0xD0, CHR 0xB9, CHR 0xD0, CHR 0xBA,
     CHR 0xD0, CHR 0xB8, CHR 0x29]"

definition STR_RECENT :: string where
  \<comment> \<open>Recent wash (\<close>
  "STR_RECENT =
    [CHR 0xD0, CHR 0x9D, CHR 0xD0, CHR 0xB5, CHR 0xD0, CHR 0xB4, CHR 0xD0, CHR 0xB0, CHR 0xD0, CHR 0xB2,
     CHR 0xD0, CHR 0xBD, CHR 0xD1, CHR 0x8F, CHR 0xD1, CHR 0x8F, CHR 0x20, CHR 0xD0, CHR 0xBC, CHR 0xD0,
     CHR 0xBE, CHR 0xD0, CHR 0xB9, CHR 0xD0, CHR 0xBA, CHR 0xD0, CHR 0xB0, CHR 0x20, CHR 0x28]"

definition STR_RECENT_END :: string where
  \<comment> \<open> days ago)\<close>
  "STR_RECENT_END =
    [CHR 0x20, CHR 0xD0, CHR 0xB4, CHR 0xD0, CHR 0xBD, CHR 0xD0, CHR 0xB5, CHR 0xD0, CHR 0xB9, CHR 0x20,
     CHR 0xD0, CHR 0xBD, CHR 0xD0, CHR 0xB0, CHR 0xD0, CHR 0xB7, CHR 0xD0, CHR 0xB0, CHR 0xD0, CHR 0xB4,
     CHR 0x29]"

definition STR_EXCELLENT :: string where
  \<comment> \<open>Excellent conditions for washing\<close>
  "STR_EXCELLENT =
    [CHR 0xD0, CHR 0x9E, CHR 0xD1, CHR 0x82, CHR 0xD0, CHR 0xBB, CHR 0xD0, CHR 0xB8, CHR 0xD1, CHR 0x87,
     CHR 0xD0, CHR 0xBD, CHR 0xD1, CHR 0x8B, CHR 0xD0, CHR 0xB5, CHR 0x20, CHR 0xD1, CHR 0x83, CHR 0xD1,
     CHR 0x81, CHR 0xD0, CHR 0xBB, CHR 0xD0, CHR 0xBE, CHR 0xD0, CHR 0xB2, CHR 0xD0, CHR 0xB8, CHR 0xD1,
     CHR 0x8F, CHR 0x20, CHR 0xD0, CHR 0xB4, CHR 0xD0, CHR 0xBB, CHR 0xD1, CHR 0x8F, CHR 0x20, CHR 0xD0,
     CHR 0xBC, CHR 0xD0, CHR 0xBE, CHR 0xD0, CHR 0xB9, CHR 0xD0, CHR 0xBA, CHR 0xD0, CHR 0xB8]"

definition STR_GOOD_BUT :: string where
  \<comment> \<open>Good conditions, but \<close>
  "STR_GOOD_BUT =
    [CHR 0xD0, CHR 0xA5, CHR 0xD0, CHR 0xBE, CHR 0xD1, CHR 0x80, CHR 0xD0, CHR 0xBE, CHR 0xD1, CHR 0x88,
     CHR 0xD0, CHR 0xB8, CHR 0xD0, CHR 0xB5, CHR 0x20, CHR 0xD1, CHR 0x83, CHR 0xD1, CHR 0x81, CHR 0xD0,
     CHR 0xBB, CHR 0xD0, CHR 0xBE, CHR 0xD0, CHR 0xB2, CHR 0xD0, CHR 0xB8, CHR 0xD1, CHR 0x8F, CHR 0x2C,
     CHR 0x20, CHR 0xD0, CHR 0xBD, CHR 0xD0, CHR 0xBE, CHR 0x20]"

definition STR_SATISFACTORY_HOWEVER :: string where
  \<comment> \<open>Satisfactory conditions, however \<close>
  "STR_SATISFACTORY_HOWEVER =
    [CHR 0xD0, CHR 0xA3, CHR 0xD0, CHR 0xB4, CHR 0xD0, CHR 0xBE, CHR 0xD0, CHR 0xB2, CHR 0xD0, CHR 0xBB,
     CHR 0xD0, CHR 0xB5, CHR 0xD1, CHR 0x82, CHR 0xD0, CHR 0xB2, CHR 0xD0, CHR 0xBE, CHR 0xD1, CHR 0x80,
     CHR 0xD0, CHR 0xB8, CHR 0xD1, CHR 0x82, CHR 0xD0, CHR 0xB5, CHR 0xD0, CHR 0xBB, CHR 0xD1, CHR 0x8C,
     CHR 0xD0, CHR 0xBD, CHR 0xD1, CHR 0x8B, CHR 0xD0, CHR 0xB5, CHR 0x20, CHR 0xD1, CHR 0x83, CHR 0xD1,
     CHR 0x81, CHR 0xD0, CHR 0xBB, CHR 0xD0, CHR 0xBE, CHR 0xD0, CHR 0xB2, CHR 0xD0, CHR 0xB8, CHR 0xD1,
     CHR 0x8F, CHR 0x2C, CHR 0x20, CHR 0xD0, CHR 0xBE, CHR 0xD0, CHR 0xB4, CHR 0xD0, CHR 0xBD, CHR 0xD0,
     CHR 0xB0, CHR 0xD0, CHR 0xBA, CHR 0xD0, CHR 0xBE, CHR 0x20]"

definition STR_SATISFACTORY :: string where
  \<comment> \<open>Satisfactory conditions for washing\<close>
  "STR_SATISFACTORY =
    [CHR 0xD0, CHR 0xA3, CHR 0xD0, CHR 0xB4, CHR 0xD0, CHR 0xBE, CHR 0xD0, CHR 0xB2, CHR 0xD0, CHR 0xBB,
     CHR 0xD0, CHR 0xB5, CHR 0xD1, CHR 0x82, CHR 0xD0, CHR 0xB2, CHR 0xD0, CHR 0xBE, CHR 0xD1, CHR 0x80,
     CHR 0xD0, CHR 0xB8, CHR 0xD1, CHR 0x82, CHR 0xD0, CHR 0xB5, CHR 0xD0, CHR 0xBB, CHR 0xD1, CHR 0x8C,
     CHR 0xD0, CHR 0xBD, CHR 0xD1, CHR 0x8B, CHR 0xD0, CHR 0xB5, CHR 0x20, CHR 0xD1, CHR 0x83, CHR 0xD1,
     CHR 0x81, CHR 0xD0, CHR 0xBB, CHR 0xD0, CHR 0xBE, CHR 0xD0, CHR 0xB2, CHR 0xD0, CHR 0xB8, CHR 0xD1,
     CHR 0x8F, CHR 0x20, CHR 0xD0, CHR 0xB4, CHR 0xD0, CHR 0xBB, CHR 0xD1, CHR 0x8F, CHR 0x20, CHR 0xD0,
     CHR 0xBC, CHR 0xD0, CHR 0xBE, CHR 0xD0, CHR 0xB9, CHR 0xD0, CHR 0xBA, CHR 0xD0, CHR 0xB8]"

definition STR_UNFAVORABLE_COLON :: string where
  \<comment> \<open>Unfavorable conditions: \<close>
  "STR_UNFAVORABLE_COLON =
    [CHR 0xD0, CHR 0x9D, CHR 0xD0, CHR 0xB5, CHR 0xD0, CHR 0xB1, CHR 0xD0, CHR 0xBB, CHR 0xD0, CHR 0xB0,
     CHR 0xD0, CHR 0xB3, CHR 0xD0, CHR 0xBE, CHR 0xD0, CHR 0xBF, CHR 0xD1, CHR 0x80, CHR 0xD0, CHR 0xB8,
     CHR 0xD1, CHR 0x8F, CHR 0xD1, CHR 0x82, CHR 0xD0, CHR 0xBD, CHR 0xD1, CHR 0x8B, CHR 0xD0, CHR 0xB5,
     CHR 0x20, CHR 0xD1, CHR 0x83, CHR 0xD1, CHR 0x81, CHR 0xD0, CHR 0xBB, CHR 0xD0, CHR 0xBE, CHR 0xD0,
     CHR 0xB2, CHR 0xD0, CHR 0xB8, CHR 0xD1, CHR 0x8F, CHR 0x3A, CHR 0x20]"

definition STR_UNFAVORABLE :: string where
  \<comment> \<open>Unfavorable conditions\<close>
  "STR_UNFAVORABLE =
    [CHR 0xD0, CHR 0x9D, CHR 0xD0, CHR 0xB5, CHR 0xD0, CHR 0xB1, CHR 0xD0, CHR 0xBB, CHR 0xD0, CHR 0xB0,
     CHR 0xD0, CHR 0xB3, CHR 0xD0, CHR 0xBE, CHR 0xD0, CHR 0xBF, CHR 0xD1, CHR 0x80, CHR 0xD0, CHR 0xB8,
     CHR 0xD1, CHR 0x8F, CHR 0xD1, CHR 0x82, CHR 0xD0, CHR 0xBD, CHR 0xD1, CHR 0x8B, CHR 0xD0, CHR 0xB5,
     CHR 0x20, CHR 0xD1, CHR 0x83, CHR 0xD1, CHR 0x81, CHR 0xD0, CHR 0xBB, CHR 0xD0, CHR 0xBE, CHR 0xD0,
     CHR 0xB2, CHR 0xD0, CHR 0xB8, CHR 0xD1, CHR 0x8F]"

definition STR_VERY_BAD_COLON :: string where
  \<comment> \<open>Very bad conditions: \<close>
  "STR_VERY_BAD_COLON =
    [CHR 0xD0, CHR 0x9E, CHR 0xD1, CHR 0x87, CHR 0xD0, CHR 0xB5, CHR 0xD0, CHR 0xBD, CHR 0xD1, CHR 0x8C,
     CHR 0x20, CHR 0xD0, CHR 0xBF, CHR 0xD0, CHR 0xBB, CHR 0xD0, CHR 0xBE, CHR 0xD1, CHR 0x85, CHR 0xD0,
     CHR 0xB8, CHR 0xD0, CHR 0xB5, CHR 0x20, CHR 0xD1, CHR 0x83, CHR 0xD1, CHR 0x81, CHR 0xD0, CHR 0xBB,
     CHR 0xD0, CHR 0xBE, CHR 0xD0, CHR 0xB2, CHR 0xD0, CHR 0xB8, CHR 0xD1, CHR 0x8F, CHR 0x3A, CHR 0x20]"

definition STR_VERY_BAD :: string where
  \<comment> \<open>Very bad conditions\<close>
  "STR_VERY_BAD =
    [CHR 0xD0, CHR 0x9E, CHR 0xD1, CHR 0x87, CHR 0xD0, CHR 0xB5, CHR 0xD0, CHR 0xBD, CHR 0xD1, CHR 0x8C,
     CHR 0x20, CHR 0xD0, CHR 0xBF, CHR 0xD0, CHR 0xBB, CHR 0xD0, CHR 0xBE, CHR 0xD1, CHR 0x85, CHR 0xD0,
     CHR 0xB8, CHR 0xD0, CHR 0xB5, CHR 0x20, CHR 0xD1, CHR 0x83, CHR 0xD1, CHR 0x81, CHR 0xD0, CHR 0xBB,
     CHR 0xD0, CHR 0xBE, CHR 0xD0, CHR 0xB2, CHR 0xD0, CHR 0xB8, CHR 0xD1, CHR 0x8F]"

subsection \<open>Score of one day\<close>

text \<open>
  \<^verbatim>\<open>WashAdvisorLogic._calculate_score\<close> (advisor.py, lines 87-166), branch by branch in the
  order of the source. \<^verbatim>\<open>math.exp\<close> is the real exponential.
\<close>

definition calculate_score ::
  "real option \<Rightarrow> real option \<Rightarrow> real option \<Rightarrow> real option \<Rightarrow> bool \<Rightarrow> bool \<Rightarrow> bool \<Rightarrow> real" where
  "calculate_score temp precip_prob wind_speed humidity
       is_rain_expected is_temperature_optimal is_wind_acceptable =
    (let precip_score =
           (case precip_prob of None \<Rightarrow> 100 | Some p \<Rightarrow> 100 * exp (- 5 * p));
         temp_score =
           (case temp of
              None \<Rightarrow> 50
            | Some t \<Rightarrow>
                if 15 \<le> t \<and> t \<le> 22 then 100
                else if (10 \<le> t \<and> t < 15) \<or> (22 < t \<and> t \<le> 25) then 80
                else if (5 \<le> t \<and> t < 10) \<or> (25 < t \<and> t \<le> 30) then 60
                else if t < 5 then max 0 (60 - (5 - t) * 10)
                else max 0 (60 - (t - 30) * 10));
         wind_score =
           (case wind_speed of
              None \<Rightarrow> 100
            | Some w \<Rightarrow>
                if w \<le> 15 then 100
                else if w \<le> 25 then 80
                else if w \<le> 35 then 50
                else 20);
         humidity_score =
           (case humidity of
              None \<Rightarrow> 80
            | Some h \<Rightarrow>
                if 40 \<le> h \<and> h \<le> 60 then 100
                else if (30 \<le> h \<and> h < 40) \<or> (60 < h \<and> h \<le> 70) then 80
                else if (20 \<le> h \<and> h < 30) \<or> (70 < h \<and> h \<le> 80) then 60
                else 40);
         penalty0 = (0 :: real);
         penalty1 = (if is_rain_expected then penalty0 + 40 else penalty0);
         penalty2 = (if is_temperature_optimal then penalty1 else penalty1 + 20);
         penalty = (if is_wind_acceptable then penalty2 else penalty2 + 20);
         total_score =
           (precip_score * WEIGHT_PRECIPITATION
            + temp_score * WEIGHT_TEMPERATURE
            + wind_score * WEIGHT_WIND
            + humidity_score * WEIGHT_HUMIDITY) - penalty
     in max 0 (min 100 total_score))"

subsection \<open>The score as section 4.10 of the specification words it\<close>

text \<open>
  These definitions follow the specification's sentences (banded sub-scores, additive
  penalties, weighted total, clamp); they are compared with \<open>calculate_score\<close> below.
\<close>

definition spec_precip_subscore :: "real option \<Rightarrow> real" where
  "spec_precip_subscore p = (case p of None \<Rightarrow> 100 | Some q \<Rightarrow> 100 * exp (- (5 * q)))"

definition spec_temp_subscore :: "real option \<Rightarrow> real" where
  "spec_temp_subscore temp =
    (case temp of
       None \<Rightarrow> 50
     | Some t \<Rightarrow>
         if t \<in> {15 .. 22} then 100
         else if t \<in> {10 ..< 15} \<union> {22 <.. 25} then 80
         else if t \<in> {5 ..< 10} \<union> {25 <.. 30} then 60
         else if t < 5 then max 0 (60 - (5 - t) * 10)
         else max 0 (60 - (t - 30) * 10))"

definition spec_wind_subscore :: "real option \<Rightarrow> real" where
  "spec_wind_subscore wind =
    (case wind of
       None \<Rightarrow> 100
     | Some w \<Rightarrow> if w \<le> 15 then 100 else if w \<le> 25 then 80 else if w \<le> 35 then 50 else 20)"

definition spec_humidity_subscore :: "real option \<Rightarrow> real" where
  "spec_humidity_subscore hum =
    (case hum of
       None \<Rightarrow> 80
     | Some h \<Rightarrow>
         if h \<in> {40 .. 60} then 100
         else if h \<in> {30 ..< 40} \<union> {60 <.. 70} then 80
         else if h \<in> {20 ..< 30} \<union> {70 <.. 80} then 60
         else 40)"

definition spec_penalty :: "bool \<Rightarrow> bool \<Rightarrow> bool \<Rightarrow> real" where
  "spec_penalty rain_expected temperature_optimal wind_acceptable =
    (if rain_expected then 40 else 0)
    + (if temperature_optimal then 0 else 20)
    + (if wind_acceptable then 0 else 20)"

definition clamp_0_100 :: "real \<Rightarrow> real" where
  "clamp_0_100 x = (if x < 0 then 0 else if 100 < x then 100 else x)"

definition spec_score ::
  "real option \<Rightarrow> real option \<Rightarrow> real option \<Rightarrow> real option \<Rightarrow> bool \<Rightarrow> bool \<Rightarrow> bool \<Rightarrow> real" where
  "spec_score temp precip wind hum rain_expected temperature_optimal wind_acceptable =
    clamp_0_100
      (spec_precip_subscore precip * (4 / 10)
       + spec_temp_subscore temp * (3 / 10)
       + spec_wind_subscore wind * (2 / 10)
       + spec_humidity_subscore hum * (1 / 10)
       - spec_penalty rain_expected temperature_optimal wind_acceptable)"

subsection \<open>Reason text\<close>

text \<open>\<^verbatim>\<open>sep.join(xs)\<close> of Python.\<close>

fun join :: "string \<Rightarrow> string list \<Rightarrow> string" where
  "join sep [] = []"
| "join sep [x] = x"
| "join sep (x # y # ys) = x @ sep @ join sep (y # ys)"

text \<open>
  \<^verbatim>\<open>WashAdvisorLogic._generate_reason\<close> (advisor.py, lines 168-235). The list \<open>reasons\<close> is
  built by the four appending blocks of the source, in their order.
\<close>

definition generate_reason ::
  "str_ops \<Rightarrow> bool \<Rightarrow> bool \<Rightarrow> bool \<Rightarrow> real option \<Rightarrow> real option \<Rightarrow> real option \<Rightarrow> real
     \<Rightarrow> user_context option \<Rightarrow> string" where
  "generate_reason ops is_rain_expected is_temperature_optimal is_wind_acceptable
       precip_prob temp wind_speed score user_context =
    (let reasons_rain =
           (case precip_prob of
              None \<Rightarrow> []
            | Some p \<Rightarrow>
                if is_rain_expected then [STR_RAIN @ fmt0 ops (p * 100) @ ''%)''] else []);
         reasons_temp =
           (if is_temperature_optimal then []
            else (case temp of
                    None \<Rightarrow> []
                  | Some t \<Rightarrow>
                      if t < 5 then [STR_LOW_TEMP @ fmt0 ops t @ STR_DEG_C]
                      else if t > 25 then [STR_HIGH_TEMP @ fmt0 ops t @ STR_DEG_C]
                      else []));
         reasons_wind =
           (case wind_speed of
              None \<Rightarrow> []
            | Some w \<Rightarrow>
                if is_wind_acceptable then [] else [STR_WIND @ fmt0 ops w @ STR_KMH]);
         reasons_context =
           (case user_context of
              None \<Rightarrow> []
            | Some uc \<Rightarrow>
                (case days_since_last_wash uc of
                   None \<Rightarrow> []
                 | Some days_since \<Rightarrow>
                     if is_interval_optimal uc = Some True
                     then [STR_OPTIMAL @ str_int ops days_since @ STR_OPTIMAL_END]
                     else if days_since < 7
                     then [STR_RECENT @ str_int ops days_since @ STR_RECENT_END]
                     else []));
         reasons = reasons_rain @ reasons_temp @ reasons_wind @ reasons_context
     in if score \<ge> 80 then
          (if reasons = [] then STR_EXCELLENT
           else STR_GOOD_BUT @ lower ops (join '', '' reasons))
        else if score \<ge> 60 then
          (if reasons = [] then STR_SATISFACTORY
           else STR_SATISFACTORY_HOWEVER @ lower ops (join '', '' reasons))
        else if score \<ge> 40 then
          (if reasons = [] then STR_UNFAVORABLE else STR_UNFAVORABLE_COLON @ join '', '' reasons)
        else
          (if reasons = [] then STR_VERY_BAD else STR_VERY_BAD_COLON @ join '', '' reasons))"

subsection \<open>Analysis of one day\<close>

text \<open>\<^verbatim>\<open>WashAdvisorLogic.analyze_weather_day\<close> (advisor.py, lines 13-85).\<close>

definition analyze_weather_day ::
  "str_ops \<Rightarrow> weather_data \<Rightarrow> user_context option \<Rightarrow> analyzed_day" where
  "analyze_weather_day ops weather_data user_context =
    (let temp = wd_temperature_avg weather_data;
         precip_prob = wd_precipitation_probability weather_data;
         precip_amount = wd_precipitation_amount weather_data;
         wind_speed = wd_wind_speed weather_data;
         humidity = wd_humidity weather_data;
         weather_desc = wd_weather_description weather_data;
         is_rain_expected =
           (case precip_prob of None \<Rightarrow> False | Some p \<Rightarrow> p > MIN_PRECIPITATION_THRESHOLD);
         is_temperature_optimal =
           (case temp of
              None \<Rightarrow> False
            | Some t \<Rightarrow> IDEAL_WASH_TEMPERATURE_MIN \<le> t \<and> t \<le> IDEAL_WASH_TEMPERATURE_MAX);
         is_wind_acceptable =
           (case wind_speed of None \<Rightarrow> False | Some w \<Rightarrow> w \<le> WIND_SPEED_THRESHOLD);
         score0 =
           calculate_score temp precip_prob wind_speed humidity
             is_rain_expected is_temperature_optimal is_wind_acceptable;
         score =
           (case user_context of
              None \<Rightarrow> score0
            | Some uc \<Rightarrow>
                (case days_since_last_wash uc of
                   None \<Rightarrow> score0
                 | Some days_since \<Rightarrow>
                     if is_interval_optimal uc = Some True then min 100 (score0 + 10)
                     else if days_since < 7 then max 0 (score0 - 20)
                     else score0));
         reason =
           generate_reason ops is_rain_expected is_temperature_optimal is_wind_acceptable
             precip_prob temp wind_speed score user_context
     in \<lparr> ad_date = wd_date weather_data,
          ad_temperature = temp,
          ad_precipitation_probability = precip_prob,
          ad_precipitation_amount = precip_amount,
          ad_wind_speed = wind_speed,
          ad_humidity = humidity,
          ad_weather_description = weather_desc,
          ad_is_rain_expected = is_rain_expected,
          ad_is_temperature_optimal = is_temperature_optimal,
          ad_is_wind_acceptable = is_wind_acceptable,
          ad_score = Some score,
          ad_reason = Some reason \<rparr>)"

subsection \<open>Best day\<close>

text \<open>
  The constructor of the pydantic model \<^verbatim>\<open>WashRecommendationDay\<close> (schemas.py): the field
  \<^verbatim>\<open>score\<close> is declared \<^verbatim>\<open>Field(..., ge=0, le=100)\<close> and is required, so a missing score or
  one outside the range raises a validation error.
\<close>

definition WashRecommendationDay ::
  "int \<Rightarrow> bool \<Rightarrow> real option \<Rightarrow> real option \<Rightarrow> real option \<Rightarrow> real option \<Rightarrow> string \<Rightarrow> factors
     \<Rightarrow> py_error + wash_recommendation_day" where
  "WashRecommendationDay date is_recommended score temperature precipitation_probability
       wind_speed reason fs =
    (case score of
       None \<Rightarrow> Inl ValidationError
     | Some s \<Rightarrow>
         if 0 \<le> s \<and> s \<le> 100 then
           Inr \<lparr> rd_date = date,
                 rd_is_recommended = is_recommended,
                 rd_score = s,
                 rd_temperature = temperature,
                 rd_precipitation_probability = precipitation_probability,
                 rd_wind_speed = wind_speed,
                 rd_reason = reason,
                 rd_factors = fs \<rparr>
         else Inl ValidationError)"

text \<open>Python's truth value of a score: \<^verbatim>\<open>None\<close> and \<^verbatim>\<open>0\<close> are false.\<close>

definition truthy :: "real option \<Rightarrow> bool" where
  "truthy s = (case s of None \<Rightarrow> False | Some x \<Rightarrow> x \<noteq> 0)"

text \<open>\<^verbatim>\<open>x['score'] if x['score'] else 0\<close> and \<^verbatim>\<open>best_day['score'] or 0\<close>.\<close>

definition score_or_0 :: "real option \<Rightarrow> real" where
  "score_or_0 s = (if truthy s then (case s of None \<Rightarrow> 0 | Some x \<Rightarrow> x) else 0)"

text \<open>\<^verbatim>\<open>best_day['reason'] or ""\<close>.\<close>

definition reason_or_empty :: "string option \<Rightarrow> string" where
  "reason_or_empty r = (case r of None \<Rightarrow> [] | Some s \<Rightarrow> s)"

text \<open>
  \<^verbatim>\<open>WashAdvisorLogic.find_best_wash_day\<close> (advisor.py, lines 237-283). Python's
  \<^verbatim>\<open>sorted(..., reverse=True)\<close> is stable: equal keys keep their original order, which is
  the stable ascending sort on the negated key. \<^verbatim>\<open>sorted_days[0]\<close> raises on an empty list.
\<close>

definition find_best_wash_day :: "analyzed_day list \<Rightarrow> py_error + wash_recommendation_day option" where
  "find_best_wash_day analyzed_days =
    (if analyzed_days = [] then Inr None
     else
       let min_acceptable_score = (60 :: real);
           acceptable_days =
             filter (\<lambda>day. truthy (ad_score day) \<and> score_or_0 (ad_score day) \<ge> min_acceptable_score)
               analyzed_days;
           acceptable_days = (if acceptable_days = [] then analyzed_days else acceptable_days);
           sorted_days = sort_key (\<lambda>x. - score_or_0 (ad_score x)) acceptable_days
       in (case sorted_days of
             [] \<Rightarrow> Inl IndexError
           | best_day # _ \<Rightarrow>
               (case WashRecommendationDay
                       (ad_date best_day)
                       (if truthy (ad_score best_day)
                        then score_or_0 (ad_score best_day) \<ge> min_acceptable_score else False)
                       (Some (score_or_0 (ad_score best_day)))
                       (ad_temperature best_day)
                       (ad_precipitation_probability best_day)
                       (ad_wind_speed best_day)
                       (reason_or_empty (ad_reason best_day))
                       \<lparr> f_is_rain_expected = ad_is_rain_expected best_day,
                         f_is_temperature_optimal = ad_is_temperature_optimal best_day,
                         f_is_wind_acceptable = ad_is_wind_acceptable best_day,
                         f_humidity = ad_humidity best_day \<rparr> of
                  Inl e \<Rightarrow> Inl e
                | Inr d \<Rightarrow> Inr (Some d))))"

text \<open>\<^verbatim>\<open>WashAdvisorLogic.generate_all_days_recommendations\<close> (advisor.py, lines 285-315).\<close>

fun generate_all_days_recommendations ::
  "analyzed_day list \<Rightarrow> py_error + wash_recommendation_day list" where
  "generate_all_days_recommendations [] = Inr []"
| "generate_all_days_recommendations (day # days) =
    (case WashRecommendationDay
            (ad_date day)
            (case ad_score day of None \<Rightarrow> False | Some s \<Rightarrow> s \<ge> 60)
            (Some (score_or_0 (ad_score day)))
            (ad_temperature day)
            (ad_precipitation_probability day)
            (ad_wind_speed day)
            (reason_or_empty (ad_reason day))
            \<lparr> f_is_rain_expected = ad_is_rain_expected day,
              f_is_temperature_optimal = ad_is_temperature_optimal day,
              f_is_wind_acceptable = ad_is_wind_acceptable day,
              f_humidity = ad_humidity day \<rparr> of
       Inl e \<Rightarrow> Inl e
     | Inr rec_day \<Rightarrow>
         (case generate_all_days_recommendations days of
            Inl e \<Rightarrow> Inl e
          | Inr recommendations \<Rightarrow> Inr (rec_day # recommendations)))"


section \<open>Wash advisor service: recommendation cache and request handler\<close>

subsection \<open>Stored recommendations\<close>

text \<open>
  A row of the table \<^verbatim>\<open>wash_recommendations\<close> (models.py, class \<^verbatim>\<open>WashRecommendation\<close>).
  Timestamps are seconds on the clock of \<^verbatim>\<open>datetime.now()\<close>; the column \<^verbatim>\<open>is_recommended\<close>
  is a nullable boolean. The session is the list of rows it can see; a query on it
  cannot fail, so the \<^verbatim>\<open>except\<close> branches of the CRUD functions, which only guard the
  database call, have no counterpart.
\<close>

record wash_recommendation =
  wr_user_id :: string
  wr_location :: string
  wr_recommendation_date :: int
  wr_temperature :: "real option"
  wr_precipitation_probability :: "real option"
  wr_precipitation_amount :: "real option"
  wr_wind_speed :: "real option"
  wr_humidity :: "real option"
  wr_weather_description :: "string option"
  wr_score :: "real option"
  wr_is_recommended :: "bool option"
  wr_reason :: "string option"
  wr_is_rain_expected :: bool
  wr_is_temperature_optimal :: bool
  wr_is_wind_acceptable :: bool
  wr_days_since_last_wash :: "int option"
  wr_is_interval_optimal :: "bool option"
  wr_created_at :: int
  wr_expires_at :: "int option"

text \<open>\<^verbatim>\<open>timedelta(hours=h)\<close> in seconds.\<close>

definition hours :: "int \<Rightarrow> int" where
  "hours h = h * 3600"

text \<open>
  \<^verbatim>\<open>CRUD.get_cached_recommendation\<close> (crud.py, lines 113-150): the \<^verbatim>\<open>where\<close> clause, the
  descending order on \<^verbatim>\<open>created_at\<close>, \<^verbatim>\<open>limit(1)\<close> and \<^verbatim>\<open>scalar_one_or_none\<close>. The
  parameter \<open>days\<close> is not used by the source either.
\<close>

definition get_cached_recommendation ::
  "int \<Rightarrow> wash_recommendation list \<Rightarrow> string \<Rightarrow> string \<Rightarrow> int \<Rightarrow> wash_recommendation option" where
  "get_cached_recommendation now session user_id location days =
    (let cache_limit = now - hours CACHE_RECOMMENDATION_HOURS;
         selected =
           filter (\<lambda>r. wr_user_id r = user_id
                       \<and> wr_location r = location
                       \<and> wr_created_at r \<ge> cache_limit
                       \<and> wr_is_recommended r = Some True) session;
         ordered = sort_key (\<lambda>r. - wr_created_at r) selected;
         limited = take 1 ordered
     in (case limited of
           [] \<Rightarrow> None
         | [recommendation] \<Rightarrow> Some recommendation
         | _ \<Rightarrow> None))"

subsection \<open>The endpoint \<^verbatim>\<open>POST /api/recommendations\<close>\<close>

record recommendation_request =
  req_user_id :: string
  req_days :: int
  req_force_refresh :: bool

text \<open>
  The dictionary returned by the user service; \<open>None\<close> in \<open>ui_city\<close> is a missing key or
  a null value (both answer 400).
\<close>

record user_info =
  ui_city :: "string option"
  ui_country :: "string option"

record wash_recommendation_response =
  resp_user_id :: string
  resp_location :: string
  resp_analysis_date :: int
  resp_days_since_last_wash :: "int option"
  resp_is_interval_optimal :: "bool option"
  resp_best_day :: "wash_recommendation_day option"
  resp_all_days :: "wash_recommendation_day list"
  resp_cached :: bool

text \<open>
  The handler's \<^verbatim>\<open>except\<close> clauses: an \<^verbatim>\<open>HTTPException\<close> is raised again, any other
  exception becomes status 500.
\<close>

definition as_http :: "py_error \<Rightarrow> py_error" where
  "as_http e = (case e of HTTPError c \<Rightarrow> HTTPError c | _ \<Rightarrow> HTTPError 500)"

text \<open>
  \<^verbatim>\<open>get_wash_recommendation\<close> (main.py, lines 126-327). Three things come from outside
  and are arguments: \<open>info\<close>, the answer of the user service; \<open>context_metrics\<close>, the
  result of the context upsert and of \<^verbatim>\<open>calculate_user_context\<close> (lines 167-183, \<open>None\<close>
  for the empty dictionary); and \<open>fresh\<close>, what the branch \<^verbatim>\<open>if not cached:\<close> (lines
  202-278) computes from the weather service, namely the pair \<^verbatim>\<open>(best_day, all_days)\<close> or
  the exception it raises. The cache lookup and the branch that serves a cached row
  (lines 185-200 and 280-300) are modelled statement by statement.
\<close>

definition get_wash_recommendation ::
  "int \<Rightarrow> wash_recommendation list \<Rightarrow> recommendation_request \<Rightarrow> user_info option
     \<Rightarrow> user_context option
     \<Rightarrow> py_error + (wash_recommendation_day option \<times> wash_recommendation_day list)
     \<Rightarrow> py_error + wash_recommendation_response" where
  "get_wash_recommendation now session request info context_metrics fresh =
    (case info of
       None \<Rightarrow> Inl (HTTPError 404)
     | Some user_info \<Rightarrow>
         (case ui_city user_info of
            None \<Rightarrow> Inl (HTTPError 400)
          | Some location \<Rightarrow>
              if location = [] then Inl (HTTPError 400)
              else
                let cached_rec =
                      (if req_force_refresh request then None
                       else get_cached_recommendation now session
                              (req_user_id request) location (req_days request))
                in (case cached_rec of
                      None \<Rightarrow>
                        (case fresh of
                           Inl e \<Rightarrow> Inl (as_http e)
                         | Inr (best_day, all_days) \<Rightarrow>
                             Inr \<lparr> resp_user_id = req_user_id request,
                                   resp_location = location,
                                   resp_analysis_date = now,
                                   resp_days_since_last_wash =
                                     (case context_metrics of
                                        None \<Rightarrow> None | Some m \<Rightarrow> days_since_last_wash m),
                                   resp_is_interval_optimal =
                                     (case context_metrics of
                                        None \<Rightarrow> None | Some m \<Rightarrow> is_interval_optimal m),
                                   resp_best_day = best_day,
                                   resp_all_days = all_days,
                                   resp_cached = False \<rparr>)
                    | Some rec \<Rightarrow>
                        (case wr_is_recommended rec of
                           None \<Rightarrow> Inl (as_http ValidationError)
                         | Some is_rec \<Rightarrow>
                             (case WashRecommendationDay
                                     (wr_recommendation_date rec)
                                     is_rec
                                     (wr_score rec)
                                     (wr_temperature rec)
                                     (wr_precipitation_probability rec)
                                     (wr_wind_speed rec)
                                     (reason_or_empty (wr_reason rec))
                                     \<lparr> f_is_rain_expected = wr_is_rain_expected rec,
                                       f_is_temperature_optimal = wr_is_temperature_optimal rec,
                                       f_is_wind_acceptable = wr_is_wind_acceptable rec,
                                       f_humidity = wr_humidity rec \<rparr> of
                                Inl e \<Rightarrow> Inl (as_http e)
                              | Inr cached_day \<Rightarrow>
                                  Inr \<lparr> resp_user_id = req_user_id request,
                                        resp_location = location,
                                        resp_analysis_date = now,
                                        resp_days_since_last_wash =
                                          (case context_metrics of
                                             None \<Rightarrow> None | Some m \<Rightarrow> days_since_last_wash m),
                                        resp_is_interval_optimal =
                                          (case context_metrics of
                                             None \<Rightarrow> None | Some m \<Rightarrow> is_interval_optimal m),
                                        resp_best_day =
                                          (if is_rec then Some cached_day else None),
                                        resp_all_days = [cached_day],
                                        resp_cached = True \<rparr>)))))"

section \<open>Weather service\<close>

subsection \<open>Provider data and the forecast parser\<close>

text \<open>
  A JSON value as far as the parser distinguishes them: a number, a string, or anything
  else (null, list, object), on which the division by 100 raises \<^verbatim>\<open>TypeError\<close>. A JSON
  document kept as \<^verbatim>\<open>raw_data\<close> is its text.
\<close>

datatype jval = JNum real | JStr string | JOther

type_synonym json = string

text \<open>
  One entry of \<^verbatim>\<open>forecast.forecastday\<close> in the provider's answer, with the keys the
  parser reads from \<^verbatim>\<open>day\<close>, \<^verbatim>\<open>day.condition\<close> and \<^verbatim>\<open>astro\<close>; \<open>None\<close> is a missing key.
\<close>

record provider_day =
  pd_date :: "string option"
  pd_mintemp_c :: "real option"
  pd_maxtemp_c :: "real option"
  pd_avgtemp_c :: "real option"
  pd_daily_chance_of_rain :: "jval option"
  pd_totalprecip_mm :: "real option"
  pd_condition_code :: "int option"
  pd_condition_text :: "string option"
  pd_maxwind_kph :: "real option"
  pd_avghumidity :: "int option"
  pd_sunrise :: "string option"
  pd_sunset :: "string option"
  pd_raw :: json

record raw_response =
  rr_name :: "string option"
  rr_country :: "string option"
  rr_lat :: "real option"
  rr_lon :: "real option"
  rr_forecastday :: "provider_day list"

text \<open>
  The value under the key \<^verbatim>\<open>date\<close> of a parsed day: a string, a date object (a day
  number), or \<^verbatim>\<open>None\<close>.
\<close>

datatype date_input = DateStr string | DateObj int | DateNone

text \<open>The dictionary of one parsed day, the input of \<^verbatim>\<open>create_forecasts\<close>.\<close>

record forecast_day =
  fd_date :: date_input
  fd_temperature_min :: "real option"
  fd_temperature_max :: "real option"
  fd_temperature_avg :: "real option"
  fd_precipitation_probability :: "real option"
  fd_precipitation_amount :: "real option"
  fd_weather_code :: "int option"
  fd_weather_description :: "string option"
  fd_wind_speed :: "real option"
  fd_humidity :: "int option"
  fd_sunrise :: "string option"
  fd_sunset :: "string option"
  fd_raw_data :: "json option"

record location_data =
  ld_city_name :: string
  ld_country :: string
  ld_lat :: real
  ld_lon :: real

record parsed_data =
  pdat_location :: location_data
  pdat_forecast_days :: "forecast_day list"

text \<open>\<^verbatim>\<open>s.replace('%', '')\<close>.\<close>

definition remove_percent :: "string \<Rightarrow> string" where
  "remove_percent s = filter (\<lambda>c. c \<noteq> CHR ''%'') s"

text \<open>
  Lines 136-148 of weather_client.py: the default 0 for a missing key, the conversion of
  a string (with 0 when \<^verbatim>\<open>float\<close> raises), and the division by 100. Python's \<^verbatim>\<open>float\<close> on
  strings is the parameter \<open>py_float\<close>, \<open>None\<close> when it raises.
\<close>

definition chance_of_rain_fraction :: "(string \<Rightarrow> real option) \<Rightarrow> jval option \<Rightarrow> py_error + real" where
  "chance_of_rain_fraction py_float field =
    (let chance_of_rain = (case field of None \<Rightarrow> JNum 0 | Some v \<Rightarrow> v);
         chance_of_rain =
           (case chance_of_rain of
              JStr s \<Rightarrow>
                (case py_float (remove_percent s) of None \<Rightarrow> JNum 0 | Some x \<Rightarrow> JNum x)
            | v \<Rightarrow> v)
     in (case chance_of_rain of
           JNum x \<Rightarrow> Inr (x / 100)
         | _ \<Rightarrow> Inl TypeError))"

text \<open>The body of the loop of \<^verbatim>\<open>parse_forecast_data\<close> (lines 131-159).\<close>

definition parse_day :: "(string \<Rightarrow> real option) \<Rightarrow> provider_day \<Rightarrow> py_error + forecast_day" where
  "parse_day py_float day_data =
    (case chance_of_rain_fraction py_float (pd_daily_chance_of_rain day_data) of
       Inl e \<Rightarrow> Inl e
     | Inr fraction \<Rightarrow>
         Inr \<lparr> fd_date = (case pd_date day_data of None \<Rightarrow> DateNone | Some s \<Rightarrow> DateStr s),
               fd_temperature_min = pd_mintemp_c day_data,
               fd_temperature_max = pd_maxtemp_c day_data,
               fd_temperature_avg = pd_avgtemp_c day_data,
               fd_precipitation_probability = Some fraction,
               fd_precipitation_amount =
                 (case pd_totalprecip_mm day_data of None \<Rightarrow> Some 0 | Some x \<Rightarrow> Some x),
               fd_weather_code = pd_condition_code day_data,
               fd_weather_description = pd_condition_text day_data,
               fd_wind_speed = pd_maxwind_kph day_data,
               fd_humidity = pd_avghumidity day_data,
               fd_sunrise = pd_sunrise day_data,
               fd_sunset = pd_sunset day_data,
               fd_raw_data = Some (pd_raw day_data) \<rparr>)"

fun parse_days :: "(string \<Rightarrow> real option) \<Rightarrow> provider_day list \<Rightarrow> py_error + forecast_day list" where
  "parse_days py_float [] = Inr []"
| "parse_days py_float (day_data # rest) =
    (case parse_day py_float day_data of
       Inl e \<Rightarrow> Inl e
     | Inr parsed_day \<Rightarrow>
         (case parse_days py_float rest of
            Inl e \<Rightarrow> Inl e
          | Inr parsed_days \<Rightarrow> Inr (parsed_day # parsed_days)))"

definition UNKNOWN :: string where
  "UNKNOWN = ''Unknown''"

text \<open>
  \<^verbatim>\<open>WeatherAPIClient.parse_forecast_data\<close> (weather_client.py, lines 124-180); the
  \<^verbatim>\<open>except\<close> clause returns the location \<^verbatim>\<open>Unknown\<close> and no days.
\<close>

definition parse_forecast_data :: "(string \<Rightarrow> real option) \<Rightarrow> raw_response \<Rightarrow> parsed_data" where
  "parse_forecast_data py_float raw_data =
    (case parse_days py_float (rr_forecastday raw_data) of
       Inl e \<Rightarrow>
         \<lparr> pdat_location =
             \<lparr> ld_city_name = UNKNOWN, ld_country = UNKNOWN, ld_lat = 0, ld_lon = 0 \<rparr>,
           pdat_forecast_days = [] \<rparr>
     | Inr parsed_days \<Rightarrow>
         \<lparr> pdat_location =
             \<lparr> ld_city_name = (case rr_name raw_data of None \<Rightarrow> UNKNOWN | Some n \<Rightarrow> n),
               ld_country = (case rr_country raw_data of None \<Rightarrow> UNKNOWN | Some c \<Rightarrow> c),
               ld_lat = (case rr_lat raw_data of None \<Rightarrow> 0 | Some x \<Rightarrow> x),
               ld_lon = (case rr_lon raw_data of None \<Rightarrow> 0 | Some x \<Rightarrow> x) \<rparr>,
           pdat_forecast_days = parsed_days \<rparr>)"

subsection \<open>Stored forecasts\<close>

text \<open>
  A row of the table \<^verbatim>\<open>weather_forecasts\<close> (models.py, class \<^verbatim>\<open>WeatherForecast\<close>). Dates
  are day numbers and timestamps are seconds, a day having 86400 of them. The session
  is the list of the rows it can see; an object held by Python is the position of its row
  in that list, which \<^verbatim>\<open>create_forecasts\<close> never changes since it only appends.
\<close>

record weather_forecast =
  wf_location_id :: string
  wf_date :: int
  wf_temperature_min :: "real option"
  wf_temperature_max :: "real option"
  wf_temperature_avg :: "real option"
  wf_precipitation_probability :: "real option"
  wf_precipitation_amount :: "real option"
  wf_weather_code :: "int option"
  wf_weather_description :: "string option"
  wf_wind_speed :: "real option"
  wf_humidity :: "int option"
  wf_sunrise :: "string option"
  wf_sunset :: "string option"
  wf_raw_data :: "json option"
  wf_forecast_source :: string
  wf_is_cached :: bool
  wf_created_at :: int
  wf_updated_at :: "int option"

text \<open>\<^verbatim>\<open>datetime.date()\<close>, and a date as the database compares it with a timestamp column
  (both drivers in use bind a date to a timestamp as its midnight).\<close>

definition date_of :: "int \<Rightarrow> int" where
  "date_of t = t div 86400"

definition midnight :: "int \<Rightarrow> int" where
  "midnight d = d * 86400"

text \<open>
  \<^verbatim>\<open>CRUD.get_cached_forecast\<close> (weather crud.py, lines 82-117). \<open>ttl_hours\<close> is
  \<^verbatim>\<open>settings.CACHE_TTL_HOURS\<close> (1 unless the environment overrides it). A negative
  \<^verbatim>\<open>LIMIT\<close> is rejected by the database; the \<^verbatim>\<open>except\<close> clause then returns \<^verbatim>\<open>None\<close>.
\<close>

definition get_cached_forecast ::
  "int \<Rightarrow> int \<Rightarrow> weather_forecast list \<Rightarrow> string \<Rightarrow> int \<Rightarrow> weather_forecast list option" where
  "get_cached_forecast now ttl_hours session location_id days =
    (let cache_limit = now - hours ttl_hours;
         cache_limit_date = date_of cache_limit;
         selected =
           filter (\<lambda>f. wf_location_id f = location_id
                       \<and> wf_created_at f \<ge> midnight cache_limit_date
                       \<and> wf_is_cached f) session;
         ordered = sort_key wf_date selected
     in if days < 0 then None
        else
          let forecasts = take (nat days) ordered
          in if forecasts \<noteq> [] then Some forecasts else None)"

text \<open>\<^verbatim>\<open>Result.scalar_one_or_none\<close>.\<close>

fun scalar_one_or_none :: "'a list \<Rightarrow> py_error + 'a option" where
  "scalar_one_or_none [] = Inr None"
| "scalar_one_or_none [x] = Inr (Some x)"
| "scalar_one_or_none (x # y # zs) = Inl MultipleResultsFound"

text \<open>
  Lines 131-139 of \<^verbatim>\<open>create_forecasts\<close>: a string is parsed by \<^verbatim>\<open>strptime\<close> with the format
  \<^verbatim>\<open>%Y-%m-%d\<close> (the parameter \<open>strptime\<close>, \<open>None\<close> when it raises \<^verbatim>\<open>ValueError\<close>), and a
  failure skips the day (the outer \<open>None\<close>); any other value is taken as it is.
\<close>

definition forecast_date_of :: "(string \<Rightarrow> int option) \<Rightarrow> date_input \<Rightarrow> int option option" where
  "forecast_date_of strptime date_str =
    (case date_str of
       DateStr s \<Rightarrow> (case strptime s of None \<Rightarrow> None | Some d \<Rightarrow> Some (Some d))
     | DateObj d \<Rightarrow> Some (Some d)
     | DateNone \<Rightarrow> Some None)"

text \<open>The assignments of lines 150-162 to the existing row.\<close>

definition overwrite :: "int \<Rightarrow> weather_forecast \<Rightarrow> forecast_day \<Rightarrow> weather_forecast" where
  "overwrite import_time existing_forecast day_data =
    existing_forecast
      \<lparr> wf_temperature_min := fd_temperature_min day_data,
        wf_temperature_max := fd_temperature_max day_data,
        wf_temperature_avg := fd_temperature_avg day_data,
        wf_precipitation_probability := fd_precipitation_probability day_data,
        wf_precipitation_amount := fd_precipitation_amount day_data,
        wf_weather_code := fd_weather_code day_data,
        wf_weather_description := fd_weather_description day_data,
        wf_wind_speed := fd_wind_speed day_data,
        wf_humidity := fd_humidity day_data,
        wf_sunrise := fd_sunrise day_data,
        wf_sunset := fd_sunset day_data,
        wf_raw_data := fd_raw_data day_data,
        wf_is_cached := True,
        wf_updated_at := Some import_time \<rparr>"

text \<open>
  The row constructed in lines 167-184. The column defaults \<^verbatim>\<open>default=datetime.now()\<close> and
  \<^verbatim>\<open>onupdate=datetime.now()\<close> are evaluated once, when the module is imported:
  \<open>import_time\<close>.
\<close>

definition new_forecast :: "int \<Rightarrow> string \<Rightarrow> string \<Rightarrow> int \<Rightarrow> forecast_day \<Rightarrow> weather_forecast" where
  "new_forecast import_time location_id source forecast_date day_data =
    \<lparr> wf_location_id = location_id,
      wf_date = forecast_date,
      wf_temperature_min = fd_temperature_min day_data,
      wf_temperature_max = fd_temperature_max day_data,
      wf_temperature_avg = fd_temperature_avg day_data,
      wf_precipitation_probability = fd_precipitation_probability day_data,
      wf_precipitation_amount = fd_precipitation_amount day_data,
      wf_weather_code = fd_weather_code day_data,
      wf_weather_description = fd_weather_description day_data,
      wf_wind_speed = fd_wind_speed day_data,
      wf_humidity = fd_humidity day_data,
      wf_sunrise = fd_sunrise day_data,
      wf_sunset = fd_sunset day_data,
      wf_raw_data = fd_raw_data day_data,
      wf_forecast_source = source,
      wf_is_cached = True,
      wf_created_at = import_time,
      wf_updated_at = None \<rparr>"

text \<open>
  The loop of \<^verbatim>\<open>create_forecasts\<close> (lines 130-188). \<open>forecasts\<close> holds the positions of
  the appended objects. A date \<^verbatim>\<open>None\<close> passes the parsing, finds no row and is added with
  a null in the non-nullable column \<^verbatim>\<open>date\<close>; the next flush (before the next query, or
  at line 190) raises, so the call ends in the \<^verbatim>\<open>except\<close> clause.
\<close>

fun create_forecasts_loop ::
  "(string \<Rightarrow> int option) \<Rightarrow> int \<Rightarrow> string \<Rightarrow> string \<Rightarrow> forecast_day list
     \<Rightarrow> weather_forecast list \<Rightarrow> nat list \<Rightarrow> py_error + (weather_forecast list \<times> nat list)" where
  "create_forecasts_loop strptime import_time location_id source [] session forecasts =
     Inr (session, forecasts)"
| "create_forecasts_loop strptime import_time location_id source (day_data # rest) session forecasts =
    (case forecast_date_of strptime (fd_date day_data) of
       None \<Rightarrow>
         create_forecasts_loop strptime import_time location_id source rest session forecasts
     | Some None \<Rightarrow> Inl IntegrityError
     | Some (Some forecast_date) \<Rightarrow>
         (case scalar_one_or_none
                 (filter (\<lambda>i. wf_location_id (session ! i) = location_id
                             \<and> wf_date (session ! i) = forecast_date) [0 ..< length session]) of
            Inl e \<Rightarrow> Inl e
          | Inr (Some i) \<Rightarrow>
              create_forecasts_loop strptime import_time location_id source rest
                (session [i := overwrite import_time (session ! i) day_data])
                (forecasts @ [i])
          | Inr None \<Rightarrow>
              create_forecasts_loop strptime import_time location_id source rest
                (session @ [new_forecast import_time location_id source forecast_date day_data])
                (forecasts @ [length session])))"

text \<open>
  \<^verbatim>\<open>CRUD.create_forecasts\<close> (weather crud.py, lines 119-197): the new session and the
  returned list of row objects. The \<^verbatim>\<open>except\<close> clause rolls back and returns the empty
  list; the rollback is modelled as the session the call started from.
\<close>

definition create_forecasts ::
  "(string \<Rightarrow> int option) \<Rightarrow> int \<Rightarrow> weather_forecast list \<Rightarrow> string \<Rightarrow> forecast_day list \<Rightarrow> string
     \<Rightarrow> weather_forecast list \<times> weather_forecast list" where
  "create_forecasts strptime import_time session location_id forecast_days source =
    (case create_forecasts_loop strptime import_time location_id source forecast_days session [] of
       Inl e \<Rightarrow> (session, [])
     | Inr (session', forecasts) \<Rightarrow> (session', map (\<lambda>i. session' ! i) forecasts))"

text \<open>\<^verbatim>\<open>CRUD.delete_old_forecasts\<close> (weather crud.py, lines 199-227): the remaining rows.\<close>

definition delete_old_forecasts ::
  "int \<Rightarrow> int \<Rightarrow> weather_forecast list \<Rightarrow> string \<Rightarrow> weather_forecast list" where
  "delete_old_forecasts now ttl_hours session location_id =
    (let cache_limit = now - hours ttl_hours;
         cache_limit_date = date_of cache_limit
     in filter (\<lambda>f. \<not> (wf_location_id f = location_id
                        \<and> wf_created_at f < midnight cache_limit_date
                        \<and> wf_is_cached f)) session)"

subsection \<open>The endpoint \<^verbatim>\<open>GET /api/weather\<close>\<close>

record location =
  loc_id :: string
  loc_city_name :: string
  loc_country :: "string option"
  loc_lat :: real
  loc_lon :: real
  loc_created_at :: int

record forecast_response_day =
  frd_date :: int
  frd_temperature_min :: "real option"
  frd_temperature_max :: "real option"
  frd_temperature_avg :: "real option"
  frd_precipitation_probability :: "real option"
  frd_precipitation_amount :: "real option"
  frd_weather_code :: "int option"
  frd_weather_description :: "string option"
  frd_wind_speed :: "real option"
  frd_humidity :: "int option"
  frd_is_rainy :: "bool option"

record forecast_response =
  fr_location :: location
  fr_forecast :: "forecast_response_day list"
  fr_cached :: bool
  fr_requested_at :: int
  fr_source :: string

text \<open>
  The pydantic models of schemas.py with their range constraints: \<^verbatim>\<open>LocationInDB\<close> (latitude
  and longitude) and \<^verbatim>\<open>ForecastResponseDay\<close> (probability in [0, 1], amount at least 0,
  humidity in [0, 100], and the validator computing \<^verbatim>\<open>is_rainy\<close>).
\<close>

definition LocationInDB_from_orm :: "location \<Rightarrow> py_error + location" where
  "LocationInDB_from_orm loc =
    (if - 90 \<le> loc_lat loc \<and> loc_lat loc \<le> 90 \<and> - 180 \<le> loc_lon loc \<and> loc_lon loc \<le> 180
     then Inr loc else Inl ValidationError)"

definition ForecastResponseDay :: "weather_forecast \<Rightarrow> py_error + forecast_response_day" where
  "ForecastResponseDay forecast =
    (if (case wf_precipitation_probability forecast of None \<Rightarrow> True | Some p \<Rightarrow> 0 \<le> p \<and> p \<le> 1)
        \<and> (case wf_precipitation_amount forecast of None \<Rightarrow> True | Some a \<Rightarrow> 0 \<le> a)
        \<and> (case wf_humidity forecast of None \<Rightarrow> True | Some h \<Rightarrow> 0 \<le> h \<and> h \<le> 100)
     then
       Inr \<lparr> frd_date = wf_date forecast,
             frd_temperature_min = wf_temperature_min forecast,
             frd_temperature_max = wf_temperature_max forecast,
             frd_temperature_avg = wf_temperature_avg forecast,
             frd_precipitation_probability = wf_precipitation_probability forecast,
             frd_precipitation_amount = wf_precipitation_amount forecast,
             frd_weather_code = wf_weather_code forecast,
             frd_weather_description = wf_weather_description forecast,
             frd_wind_speed = wf_wind_speed forecast,
             frd_humidity = wf_humidity forecast,
             frd_is_rainy =
               (case wf_precipitation_probability forecast of
                  None \<Rightarrow> None | Some p \<Rightarrow> Some (p > 6 / 10)) \<rparr>
     else Inl ValidationError)"

text \<open>The loop of lines 194-208 over the slice.\<close>

fun forecast_days_of :: "weather_forecast list \<Rightarrow> py_error + forecast_response_day list" where
  "forecast_days_of [] = Inr []"
| "forecast_days_of (forecast # rest) =
    (case ForecastResponseDay forecast of
       Inl e \<Rightarrow> Inl e
     | Inr day_data \<Rightarrow>
         (case forecast_days_of rest of
            Inl e \<Rightarrow> Inl e
          | Inr forecast_days \<Rightarrow> Inr (day_data # forecast_days)))"

text \<open>
  Python's slice \<^verbatim>\<open>xs[:n]\<close>: the first \<open>n\<close> elements, and for a negative \<open>n\<close> all but
  the last \<open>-n\<close>.
\<close>

definition slice_to :: "'a list \<Rightarrow> int \<Rightarrow> 'a list" where
  "slice_to xs n = (if 0 \<le> n then take (nat n) xs else take (length xs - nat (- n)) xs)"

text \<open>What the handler receives from outside the database of forecasts.\<close>

record weather_env =
  env_strptime :: "string \<Rightarrow> int option"
  env_py_float :: "string \<Rightarrow> real option"
  env_import_time :: int
  env_now :: int
  env_ttl_hours :: int
  env_found_location :: "location option"
  env_client_ready :: bool
  env_raw_data :: "raw_response option"
  env_created_location :: "py_error + location option"

text \<open>
  \<^verbatim>\<open>get_weather_forecast\<close> (weather main.py, lines 112-257), returning the session it
  leaves and the response, or the HTTP error. \<open>env_found_location\<close> is the result of
  \<^verbatim>\<open>get_location_by_city\<close>, \<open>env_client_ready\<close> tells whether the provider client exists,
  \<open>env_raw_data\<close> is the provider's answer and \<open>env_created_location\<close> the result of
  \<^verbatim>\<open>create_location\<close> (or the exception of building its argument). The bounds on \<open>days\<close>
  are those of the declaration \<^verbatim>\<open>Query(10, ge=1, le=14)\<close>, which answers 422. The request
  log written at the end is another table and is left out.
\<close>

definition get_weather_forecast ::
  "weather_env \<Rightarrow> weather_forecast list \<Rightarrow> string \<Rightarrow> int
     \<Rightarrow> py_error + (weather_forecast list \<times> forecast_response)" where
  "get_weather_forecast env session city days =
    (if days < 1 \<or> 14 < days then Inl (HTTPError 422)
     else
       let cached_forecasts =
             (case env_found_location env of
                None \<Rightarrow> None
              | Some location \<Rightarrow>
                  get_cached_forecast (env_now env) (env_ttl_hours env) session
                    (loc_id location) days);
           cached =
             (case cached_forecasts of
                None \<Rightarrow> False
              | Some fs \<Rightarrow> int (length fs) \<ge> days);
           fetched =
             (if cached then
                (case (env_found_location env, cached_forecasts) of
                   (Some location, Some fs) \<Rightarrow> Inr (location, session, fs)
                 | _ \<Rightarrow> Inl (HTTPError 500))
              else if \<not> env_client_ready env then Inl (HTTPError 503)
              else
                (case env_raw_data env of
                   None \<Rightarrow> Inl (HTTPError 404)
                 | Some raw_data \<Rightarrow>
                     let parsed_data = parse_forecast_data (env_py_float env) raw_data
                     in (case env_created_location env of
                           Inl e \<Rightarrow> Inl (as_http e)
                         | Inr None \<Rightarrow> Inl (HTTPError 500)
                         | Inr (Some location) \<Rightarrow>
                             let (session1, forecasts_data) =
                                   create_forecasts (env_strptime env) (env_import_time env)
                                     session (loc_id location)
                                     (pdat_forecast_days parsed_data) ''weatherapi'';
                                 session2 =
                                   delete_old_forecasts (env_now env) (env_ttl_hours env)
                                     session1 (loc_id location)
                             in Inr (location, session2, forecasts_data))))
       in (case fetched of
             Inl e \<Rightarrow> Inl e
           | Inr (location, session', forecasts_data) \<Rightarrow>
               (case LocationInDB_from_orm location of
                  Inl e \<Rightarrow> Inl (as_http e)
                | Inr location_response \<Rightarrow>
                    (case forecast_days_of (slice_to forecasts_data days) of
                       Inl e \<Rightarrow> Inl (as_http e)
                     | Inr forecast_days \<Rightarrow>
                         Inr (session',
                              \<lparr> fr_location = location_response,
                                fr_forecast = forecast_days,
                                fr_cached = cached,
                                fr_requested_at = env_now env,
                                fr_source =
                                  (if cached then ''cache'' else ''weatherapi.com'') \<rparr>)))))"

section \<open>User service\<close>

text \<open>
  A row of the table \<^verbatim>\<open>users\<close> (user_service models.py, class \<^verbatim>\<open>User\<close>) and the schema
  \<^verbatim>\<open>UserCreate\<close>. The session is the list of stored rows.
\<close>

record user =
  u_id :: string
  u_email :: string
  u_username :: string
  u_hashed_password :: string
  u_city :: "string option"
  u_country :: "string option"
  u_last_wash_date :: "int option"
  u_preferred_wash_interval :: int
  u_created_at :: int
  u_updated_at :: "int option"

record user_create =
  uc_username :: string
  uc_email :: string
  uc_password :: string
  uc_city :: "string option"
  uc_country :: "string option"
  uc_preferred_wash_interval :: int

text \<open>
  \<^verbatim>\<open>CRUD.get_user_by_username\<close> and \<^verbatim>\<open>CRUD.get_user_by_email\<close> (user crud.py, lines 49-69):
  the exception of \<^verbatim>\<open>scalar_one_or_none\<close> on several rows is caught and gives \<^verbatim>\<open>None\<close>.
\<close>

definition get_user_by_username :: "user list \<Rightarrow> string \<Rightarrow> user option" where
  "get_user_by_username session username =
    (case scalar_one_or_none (filter (\<lambda>u. u_username u = username) session) of
       Inl e \<Rightarrow> None
     | Inr result \<Rightarrow> result)"

definition get_user_by_email :: "user list \<Rightarrow> string \<Rightarrow> user option" where
  "get_user_by_email session email =
    (case scalar_one_or_none (filter (\<lambda>u. u_email u = email) session) of
       Inl e \<Rightarrow> None
     | Inr result \<Rightarrow> result)"

text \<open>
  \<^verbatim>\<open>session.add(user)\<close> followed by \<^verbatim>\<open>session.commit()\<close>: the table declares the primary key
  \<^verbatim>\<open>id\<close> and the unique columns \<^verbatim>\<open>email\<close> and \<^verbatim>\<open>username\<close>, and the insert of a row that
  repeats one of them raises an integrity error.
\<close>

definition add_and_commit :: "user list \<Rightarrow> user \<Rightarrow> py_error + user list" where
  "add_and_commit session new_user =
    (if list_ex (\<lambda>u. u_id u = u_id new_user
                     \<or> u_email u = u_email new_user
                     \<or> u_username u = u_username new_user) session
     then Inl IntegrityError
     else Inr (session @ [new_user]))"

text \<open>
  \<^verbatim>\<open>CRUD.create_user\<close> (user crud.py, lines 84-119), returning the session it leaves and
  its result. \<open>hash_password\<close> is bcrypt with the salt drawn for this call,
  \<open>generate_uuid\<close> the identifier drawn by the column default and \<open>today\<close> the server
  default of \<^verbatim>\<open>created_at\<close>. The \<^verbatim>\<open>except\<close> clause rolls back and returns \<^verbatim>\<open>None\<close>.
\<close>

definition create_user ::
  "(string \<Rightarrow> string) \<Rightarrow> string \<Rightarrow> int \<Rightarrow> user list \<Rightarrow> user_create \<Rightarrow> user list \<times> user option" where
  "create_user hash_password generate_uuid today session user_data =
    (case get_user_by_username session (uc_username user_data) of
       Some existing_user \<Rightarrow> (session, None)
     | None \<Rightarrow>
         (case get_user_by_email session (uc_email user_data) of
            Some existing_email \<Rightarrow> (session, None)
          | None \<Rightarrow>
              let new_user =
                    \<lparr> u_id = generate_uuid,
                      u_email = uc_email user_data,
                      u_username = uc_username user_data,
                      u_hashed_password = hash_password (uc_password user_data),
                      u_city = uc_city user_data,
                      u_country = uc_country user_data,
                      u_last_wash_date = None,
                      u_preferred_wash_interval = uc_preferred_wash_interval user_data,
                      u_created_at = today,
                      u_updated_at = None \<rparr>
              in (case add_and_commit session new_user of
                    Inl e \<Rightarrow> (session, None)
                  | Inr session' \<Rightarrow> (session', Some new_user))))"
section \<open>Auxiliary definitions for the statements\<close>

subsection \<open>Wash advisor\<close>

text \<open>
  The record that \<open>find_best_wash_day\<close> builds from the chosen dictionary, and the
  acceptance test of its filter.
\<close>

definition acceptable :: "analyzed_day \<Rightarrow> bool" where
  "acceptable d = (60 \<le> score_or_0 (ad_score d))"

definition day_of_analysis :: "analyzed_day \<Rightarrow> wash_recommendation_day" where
  "day_of_analysis d =
     \<lparr> rd_date = ad_date d,
       rd_is_recommended = (60 \<le> score_or_0 (ad_score d)),
       rd_score = score_or_0 (ad_score d),
       rd_temperature = ad_temperature d,
       rd_precipitation_probability = ad_precipitation_probability d,
       rd_wind_speed = ad_wind_speed d,
       rd_reason = reason_or_empty (ad_reason d),
       rd_factors =
         \<lparr> f_is_rain_expected = ad_is_rain_expected d,
           f_is_temperature_optimal = ad_is_temperature_optimal d,
           f_is_wind_acceptable = ad_is_wind_acceptable d,
           f_humidity = ad_humidity d \<rparr> \<rparr>"

text \<open>
  The two days of the unit test \<^verbatim>\<open>test_find_best_wash_day_no_acceptable_days\<close> (scores 45
  and 30) and the day of \<^verbatim>\<open>test_analyze_weather_day_ideal_conditions\<close>.
\<close>

definition day_45 :: analyzed_day where
  "day_45 =
    \<lparr> ad_date = 0, ad_temperature = Some 8, ad_precipitation_probability = Some (8 / 10),
      ad_precipitation_amount = None, ad_wind_speed = Some 20, ad_humidity = Some 85,
      ad_weather_description = [], ad_is_rain_expected = True,
      ad_is_temperature_optimal = False, ad_is_wind_acceptable = True,
      ad_score = Some 45, ad_reason = Some ''bad'' \<rparr>"

definition day_30 :: analyzed_day where
  "day_30 =
    \<lparr> ad_date = 1, ad_temperature = Some 5, ad_precipitation_probability = Some (9 / 10),
      ad_precipitation_amount = None, ad_wind_speed = Some 25, ad_humidity = Some 90,
      ad_weather_description = [], ad_is_rain_expected = True,
      ad_is_temperature_optimal = False, ad_is_wind_acceptable = False,
      ad_score = Some 30, ad_reason = Some ''very bad'' \<rparr>"

definition ideal_day :: weather_data where
  "ideal_day =
    \<lparr> wd_date = 0,
      wd_temperature_avg = Some 20,
      wd_precipitation_probability = Some (1 / 10),
      wd_precipitation_amount = Some (1 / 2),
      wd_wind_speed = Some 10,
      wd_humidity = Some 50,
      wd_weather_description = ''Sunny'' \<rparr>"

text \<open>
  The cache condition in the words of the specification: a row for the user and the
  location, created within the last 24 hours, flagged as recommended.
\<close>

definition cache_candidate :: "int \<Rightarrow> string \<Rightarrow> string \<Rightarrow> wash_recommendation \<Rightarrow> bool" where
  "cache_candidate now user_id location r =
    (wr_user_id r = user_id \<and> wr_location r = location
     \<and> now - 24 * 3600 \<le> wr_created_at r \<and> wr_is_recommended r = Some True)"

text \<open>Sample rows: one user and city, created at different times.\<close>

definition sample_rec :: "int \<Rightarrow> bool \<Rightarrow> wash_recommendation" where
  "sample_rec created recommended =
    \<lparr> wr_user_id = ''u1'', wr_location = ''Moscow'', wr_recommendation_date = 3,
      wr_temperature = Some 20, wr_precipitation_probability = Some (1 / 10),
      wr_precipitation_amount = None, wr_wind_speed = Some 10, wr_humidity = Some 50,
      wr_weather_description = None, wr_score = Some 85,
      wr_is_recommended = Some recommended, wr_reason = None,
      wr_is_rain_expected = False, wr_is_temperature_optimal = True,
      wr_is_wind_acceptable = True, wr_days_since_last_wash = None,
      wr_is_interval_optimal = None, wr_created_at = created, wr_expires_at = None \<rparr>"

definition sample_session :: "wash_recommendation list" where
  "sample_session = [sample_rec 10000 True, sample_rec 150000 True, sample_rec 190000 False]"

definition sample_request :: recommendation_request where
  "sample_request = \<lparr> req_user_id = ''u1'', req_days = 7, req_force_refresh = False \<rparr>"

definition sample_user_info :: user_info where
  "sample_user_info = \<lparr> ui_city = Some ''Moscow'', ui_country = None \<rparr>"

definition sample_cached_day :: wash_recommendation_day where
  "sample_cached_day =
    \<lparr> rd_date = 3, rd_is_recommended = True, rd_score = 85, rd_temperature = Some 20,
      rd_precipitation_probability = Some (1 / 10), rd_wind_speed = Some 10, rd_reason = [],
      rd_factors =
        \<lparr> f_is_rain_expected = False, f_is_temperature_optimal = True,
          f_is_wind_acceptable = True, f_humidity = Some 50 \<rparr> \<rparr>"

definition sample_response :: wash_recommendation_response where
  "sample_response =
    \<lparr> resp_user_id = ''u1'', resp_location = ''Moscow'', resp_analysis_date = 200000,
      resp_days_since_last_wash = None, resp_is_interval_optimal = None,
      resp_best_day = Some sample_cached_day, resp_all_days = [sample_cached_day],
      resp_cached = True \<rparr>"

subsection \<open>Weather service\<close>


text \<open>
  Sample instances of the two parsing parameters: Python's \<^verbatim>\<open>float\<close> on a non-empty string
  of decimal digits (every other string is rejected here), and \<^verbatim>\<open>strptime\<close> on the dates
  used by the unit tests.
\<close>

fun digits_value :: "nat \<Rightarrow> string \<Rightarrow> nat option" where
  "digits_value acc [] = Some acc"
| "digits_value acc (c # cs) =
    (if 48 \<le> (of_char c :: nat) \<and> (of_char c :: nat) \<le> 57
     then digits_value (10 * acc + (of_char c - 48)) cs else None)"

definition float_of_digits :: "string \<Rightarrow> real option" where
  "float_of_digits s = (if s = [] then None else map_option real (digits_value 0 s))"

definition sample_strptime :: "string \<Rightarrow> int option" where
  "sample_strptime s =
    (if s = ''2024-01-20'' then Some 19742
     else if s = ''2024-01-21'' then Some 19743
     else None)"

text \<open>Sample provider days and a sample answer of the provider.\<close>

definition sample_provider_day :: "string \<Rightarrow> jval option \<Rightarrow> provider_day" where
  "sample_provider_day date chance =
    \<lparr> pd_date = Some date, pd_mintemp_c = Some (- 5), pd_maxtemp_c = Some 2,
      pd_avgtemp_c = Some (- 3 / 2), pd_daily_chance_of_rain = chance,
      pd_totalprecip_mm = Some (3 / 2), pd_condition_code = Some 1000,
      pd_condition_text = Some ''Sunny'', pd_maxwind_kph = Some 10,
      pd_avghumidity = Some 75, pd_sunrise = None, pd_sunset = None, pd_raw = [] \<rparr>"

definition sample_raw :: "provider_day list \<Rightarrow> raw_response" where
  "sample_raw days =
    \<lparr> rr_name = Some ''Moscow'', rr_country = Some ''Russia'', rr_lat = Some 55,
      rr_lon = Some 37, rr_forecastday = days \<rparr>"

text \<open>
  A cached forecast row created at 00:30 of day 100, and the instant 10:00 of the same
  day.
\<close>

definition stale_forecast :: weather_forecast where
  "stale_forecast =
    \<lparr> wf_location_id = ''loc1'', wf_date = 100, wf_temperature_min = None,
      wf_temperature_max = None, wf_temperature_avg = Some 10,
      wf_precipitation_probability = None, wf_precipitation_amount = None,
      wf_weather_code = None, wf_weather_description = None, wf_wind_speed = None,
      wf_humidity = None, wf_sunrise = None, wf_sunset = None, wf_raw_data = None,
      wf_forecast_source = ''weatherapi'', wf_is_cached = True,
      wf_created_at = 100 * 86400 + 1800, wf_updated_at = None \<rparr>"

definition ten_o_clock :: int where
  "ten_o_clock = 100 * 86400 + 10 * 3600"

definition sample_location :: location where
  "sample_location =
    \<lparr> loc_id = ''loc1'', loc_city_name = ''Moscow'', loc_country = Some ''Russia'',
      loc_lat = 55, loc_lon = 37, loc_created_at = 100 \<rparr>"

definition sample_env :: weather_env where
  "sample_env =
    \<lparr> env_strptime = sample_strptime,
      env_py_float = float_of_digits,
      env_import_time = ten_o_clock,
      env_now = ten_o_clock,
      env_ttl_hours = 1,
      env_found_location = None,
      env_client_ready = True,
      env_raw_data =
        Some (sample_raw [sample_provider_day ''2024-01-20'' (Some (JStr ''60%'')),
                          sample_provider_day ''2024-01-21'' (Some (JNum 30))]),
      env_created_location = Inr (Some sample_location) \<rparr>"

text \<open>
  The stored rows of a location and date, the positions of those rows, the agreement of
  a row's weather fields with a parsed day, and the days whose date does not make
  \<^verbatim>\<open>create_forecasts\<close> skip them.
\<close>

definition rows_for :: "weather_forecast list \<Rightarrow> string \<Rightarrow> int \<Rightarrow> weather_forecast list" where
  "rows_for session location_id d =
    filter (\<lambda>f. wf_location_id f = location_id \<and> wf_date f = d) session"

definition match_idx :: "weather_forecast list \<Rightarrow> string \<Rightarrow> int \<Rightarrow> nat list" where
  "match_idx session location_id d =
    filter (\<lambda>i. wf_location_id (session ! i) = location_id \<and> wf_date (session ! i) = d)
      [0 ..< length session]"

definition weather_fields_of :: "weather_forecast \<Rightarrow> forecast_day \<Rightarrow> bool" where
  "weather_fields_of f day =
    (wf_temperature_min f = fd_temperature_min day
     \<and> wf_temperature_max f = fd_temperature_max day
     \<and> wf_temperature_avg f = fd_temperature_avg day
     \<and> wf_precipitation_probability f = fd_precipitation_probability day
     \<and> wf_precipitation_amount f = fd_precipitation_amount day
     \<and> wf_weather_code f = fd_weather_code day
     \<and> wf_weather_description f = fd_weather_description day
     \<and> wf_wind_speed f = fd_wind_speed day
     \<and> wf_humidity f = fd_humidity day
     \<and> wf_sunrise f = fd_sunrise day
     \<and> wf_sunset f = fd_sunset day
     \<and> wf_raw_data f = fd_raw_data day)"

definition parseable :: "(string \<Rightarrow> int option) \<Rightarrow> forecast_day \<Rightarrow> bool" where
  "parseable strptime day = (forecast_date_of strptime (fd_date day) \<noteq> None)"

text \<open>The two days of the unit test \<^verbatim>\<open>test_create_forecasts_update_existing\<close>, and a day
  whose date is not in the format.\<close>

definition sample_forecast_day :: "string \<Rightarrow> real \<Rightarrow> real \<Rightarrow> forecast_day" where
  "sample_forecast_day date avg prob =
    \<lparr> fd_date = DateStr date, fd_temperature_min = Some (avg - 4),
      fd_temperature_max = Some (avg + 4), fd_temperature_avg = Some avg,
      fd_precipitation_probability = Some prob, fd_precipitation_amount = Some 2,
      fd_weather_code = Some 1003, fd_weather_description = Some ''Cloudy'',
      fd_wind_speed = Some 15, fd_humidity = Some 80, fd_sunrise = None, fd_sunset = None,
      fd_raw_data = None \<rparr>"

definition initial_day :: forecast_day where
  "initial_day = sample_forecast_day ''2024-01-20'' (- 3 / 2) (3 / 10)"

definition updated_day :: forecast_day where
  "updated_day = sample_forecast_day ''2024-01-20'' (- 5) (1 / 2)"

definition malformed_day :: forecast_day where
  "malformed_day = sample_forecast_day ''20.01.2024'' 0 0"

subsection \<open>User service\<close>

text \<open>A stored user, two registrations, and a stand-in for the password hash.\<close>

definition stored_user :: user where
  "stored_user =
    \<lparr> u_id = ''id-1'', u_email = ''test@example.com'', u_username = ''testuser'',
      u_hashed_password = ''#secret'', u_city = Some ''Moscow'', u_country = Some ''Russia'',
      u_last_wash_date = None, u_preferred_wash_interval = 7, u_created_at = 100,
      u_updated_at = None \<rparr>"

definition duplicate_registration :: user_create where
  "duplicate_registration =
    \<lparr> uc_username = ''testuser'', uc_email = ''different@example.com'',
      uc_password = ''password123'', uc_city = Some ''City'', uc_country = Some ''Country'',
      uc_preferred_wash_interval = 7 \<rparr>"

definition new_registration :: user_create where
  "new_registration =
    \<lparr> uc_username = ''newuser'', uc_email = ''new@example.com'',
      uc_password = ''newpass123'', uc_city = Some ''Paris'', uc_country = Some ''France'',
      uc_preferred_wash_interval = 10 \<rparr>"

definition sample_hash :: "string \<Rightarrow> string" where
  "sample_hash password = CHR ''#'' # rev password"
section \<open>Wash advisor: properties of the scoring logic\<close>

subsection \<open>The score formula\<close>

lemma spec_temp_subscore_eq:
  "spec_temp_subscore temp =
    (case temp of
       None \<Rightarrow> 50
     | Some t \<Rightarrow>
         if 15 \<le> t \<and> t \<le> 22 then 100
         else if (10 \<le> t \<and> t < 15) \<or> (22 < t \<and> t \<le> 25) then 80
         else if (5 \<le> t \<and> t < 10) \<or> (25 < t \<and> t \<le> 30) then 60
         else if t < 5 then max 0 (60 - (5 - t) * 10)
         else max 0 (60 - (t - 30) * 10))"
  by (simp add: spec_temp_subscore_def split: option.split)

lemma spec_humidity_subscore_eq:
  "spec_humidity_subscore hum =
    (case hum of
       None \<Rightarrow> 80
     | Some h \<Rightarrow>
         if 40 \<le> h \<and> h \<le> 60 then 100
         else if (30 \<le> h \<and> h < 40) \<or> (60 < h \<and> h \<le> 70) then 80
         else if (20 \<le> h \<and> h < 30) \<or> (70 < h \<and> h \<le> 80) then 60
         else 40)"
  by (simp add: spec_humidity_subscore_def split: option.split)

lemma spec_precip_subscore_eq:
  "spec_precip_subscore p = (case p of None \<Rightarrow> 100 | Some p \<Rightarrow> 100 * exp (- 5 * p))"
  by (simp add: spec_precip_subscore_def split: option.split)

lemma spec_penalty_eq:
  "spec_penalty r t w =
     (if w then (if t then (if r then 0 + 40 else 0) else (if r then 0 + 40 else 0) + 20)
      else (if t then (if r then 0 + 40 else 0) else (if r then 0 + 40 else 0) + 20) + 20)"
  by (simp add: spec_penalty_def)

lemma clamp_0_100_eq: "clamp_0_100 x = max 0 (min 100 x)"
  by (simp add: clamp_0_100_def max_def min_def)

lemma calculate_score_refines:
  "calculate_score temp precip_prob wind_speed humidity r t w
     = spec_score temp precip_prob wind_speed humidity r t w"
  unfolding calculate_score_def spec_score_def Let_def clamp_0_100_eq
    spec_temp_subscore_eq spec_humidity_subscore_eq spec_penalty_eq
    spec_precip_subscore_eq spec_wind_subscore_def
    WEIGHT_PRECIPITATION_def WEIGHT_TEMPERATURE_def WEIGHT_WIND_def WEIGHT_HUMIDITY_def
  by (rule refl)

lemma calculate_score_bounds:
  "0 \<le> calculate_score temp precip_prob wind_speed humidity r t w"
  "calculate_score temp precip_prob wind_speed humidity r t w \<le> 100"
  unfolding calculate_score_def Let_def by simp_all

text \<open>
  Claim C1. For every input (optional temperature, precipitation probability, wind speed
  and humidity, and the three factor flags) the score computed by \<open>calculate_score\<close> is the
  clamp to [0, 100] of the weighted sum of the banded sub-scores of section 4.10 (weights
  0.4, 0.3, 0.2, 0.1; defaults 100, 50, 100, 80 for absent inputs) minus the penalty (40 for
  expected rain, 20 for a non-optimal temperature, 20 for unacceptable wind); in particular
  it lies in [0, 100].
\<close>

theorem calculate_score_spec:
  "calculate_score temp precip_prob wind_speed humidity
       is_rain_expected is_temperature_optimal is_wind_acceptable
     = spec_score temp precip_prob wind_speed humidity
         is_rain_expected is_temperature_optimal is_wind_acceptable
   \<and> 0 \<le> calculate_score temp precip_prob wind_speed humidity
         is_rain_expected is_temperature_optimal is_wind_acceptable
   \<and> calculate_score temp precip_prob wind_speed humidity
         is_rain_expected is_temperature_optimal is_wind_acceptable \<le> 100"
  using calculate_score_refines calculate_score_bounds by simp
subsection \<open>Best-day selection\<close>

lemma hd_sort_key_min:
  assumes "xs \<noteq> []"
  shows "\<exists>b bs. sort_key f xs = b # bs \<and> b \<in> set xs \<and> (\<forall>x \<in> set xs. f b \<le> f x)"
proof -
  from assms have "sort_key f xs \<noteq> []"
    by (metis length_sort length_0_conv)
  then obtain b bs where eq: "sort_key f xs = b # bs"
    by (cases "sort_key f xs") auto
  have "sorted (map f (sort_key f xs))" by (rule sorted_sort_key)
  with eq have "\<forall>x \<in> set bs. f b \<le> f x" by simp
  moreover have "set (b # bs) = set xs" using eq set_sort [of f xs] by simp
  ultimately show ?thesis using eq by auto
qed

lemma acceptable_iff:
  "(truthy s \<and> 60 \<le> score_or_0 s) = (60 \<le> score_or_0 s)"
  by (auto simp: truthy_def score_or_0_def split: option.splits)

lemma find_best_wash_day_sorted:
  assumes "analyzed_days \<noteq> []"
  shows "\<exists>best rest.
           sort_key (\<lambda>x. - score_or_0 (ad_score x))
             (if filter acceptable analyzed_days = [] then analyzed_days
              else filter acceptable analyzed_days) = best # rest
         \<and> best \<in> set (if filter acceptable analyzed_days = [] then analyzed_days
              else filter acceptable analyzed_days)
         \<and> (\<forall>d \<in> set (if filter acceptable analyzed_days = [] then analyzed_days
              else filter acceptable analyzed_days).
               score_or_0 (ad_score d) \<le> score_or_0 (ad_score best))"
proof -
  let ?ys = "if filter acceptable analyzed_days = [] then analyzed_days
              else filter acceptable analyzed_days"
  have "?ys \<noteq> []" using assms by simp
  from hd_sort_key_min [OF this, of "\<lambda>x. - score_or_0 (ad_score x)"]
  show ?thesis by simp
qed

lemma find_best_wash_day_unfold:
  assumes "analyzed_days \<noteq> []"
      and "sort_key (\<lambda>x. - score_or_0 (ad_score x))
             (if filter acceptable analyzed_days = [] then analyzed_days
              else filter acceptable analyzed_days) = best # rest"
      and "0 \<le> score_or_0 (ad_score best)" "score_or_0 (ad_score best) \<le> 100"
  shows "find_best_wash_day analyzed_days = Inr (Some (day_of_analysis best))"
proof -
  have f: "filter (\<lambda>day. truthy (ad_score day) \<and> 60 \<le> score_or_0 (ad_score day)) analyzed_days
           = filter acceptable analyzed_days"
    by (rule filter_cong) (simp_all add: acceptable_iff acceptable_def)
  have r: "(if truthy (ad_score best) then 60 \<le> score_or_0 (ad_score best) else False)
            = (60 \<le> score_or_0 (ad_score best))"
    using acceptable_iff [of "ad_score best"] by auto
  have "find_best_wash_day analyzed_days =
          (case WashRecommendationDay
                  (ad_date best)
                  (if truthy (ad_score best) then score_or_0 (ad_score best) \<ge> 60 else False)
                  (Some (score_or_0 (ad_score best)))
                  (ad_temperature best)
                  (ad_precipitation_probability best)
                  (ad_wind_speed best)
                  (reason_or_empty (ad_reason best))
                  \<lparr> f_is_rain_expected = ad_is_rain_expected best,
                    f_is_temperature_optimal = ad_is_temperature_optimal best,
                    f_is_wind_acceptable = ad_is_wind_acceptable best,
                    f_humidity = ad_humidity best \<rparr> of
             Inl e \<Rightarrow> Inl e
           | Inr d \<Rightarrow> Inr (Some d))"
    by (simp only: find_best_wash_day_def Let_def f assms(2) list.case if_not_P [OF assms(1)])
  then show ?thesis
    using assms(3,4) by (simp add: r WashRecommendationDay_def day_of_analysis_def)
qed

text \<open>
  Claim C2. For a non-empty list of analyzed days (scores in [0, 100], as
  \<open>analyze_weather_day\<close> produces them) \<open>find_best_wash_day\<close> returns the record of a
  day of the list whose score is maximal among the days scoring at least 60, or, when no
  day scores 60, maximal among all days; the record's \<open>is_recommended\<close> flag is
  (score \<ge> 60). The example that follows is the case of two days scoring 45 and 30: the 45-scoring
  day is returned, not recommended.
\<close>

theorem find_best_wash_day_maximal:
  assumes "analyzed_days \<noteq> []"
      and "\<forall>d \<in> set analyzed_days. 0 \<le> score_or_0 (ad_score d) \<and> score_or_0 (ad_score d) \<le> 100"
  shows "\<exists>best. best \<in> set analyzed_days
           \<and> find_best_wash_day analyzed_days = Inr (Some (day_of_analysis best))
           \<and> rd_is_recommended (day_of_analysis best) = (60 \<le> rd_score (day_of_analysis best))
           \<and> (if \<exists>d \<in> set analyzed_days. 60 \<le> score_or_0 (ad_score d)
               then 60 \<le> score_or_0 (ad_score best)
                    \<and> (\<forall>d \<in> set analyzed_days.
                          60 \<le> score_or_0 (ad_score d)
                            \<longrightarrow> score_or_0 (ad_score d) \<le> score_or_0 (ad_score best))
               else \<forall>d \<in> set analyzed_days. score_or_0 (ad_score d) \<le> score_or_0 (ad_score best))"
proof -
  let ?ys = "if filter acceptable analyzed_days = [] then analyzed_days
              else filter acceptable analyzed_days"
  from find_best_wash_day_sorted [OF assms(1)]
  obtain best rest where
    s: "sort_key (\<lambda>x. - score_or_0 (ad_score x)) ?ys = best # rest"
    and m: "best \<in> set ?ys"
    and mx: "\<forall>d \<in> set ?ys. score_or_0 (ad_score d) \<le> score_or_0 (ad_score best)"
    by blast
  have in_all: "best \<in> set analyzed_days"
    using m by (auto split: if_splits)
  have fb: "find_best_wash_day analyzed_days = Inr (Some (day_of_analysis best))"
    using find_best_wash_day_unfold [OF assms(1) s] assms(2) in_all by blast
  have e: "(filter acceptable analyzed_days = [])
             = (\<not> (\<exists>d \<in> set analyzed_days. 60 \<le> score_or_0 (ad_score d)))"
    by (auto simp: filter_empty_conv acceptable_def)
  show ?thesis
  proof (cases "\<exists>d \<in> set analyzed_days. 60 \<le> score_or_0 (ad_score d)")
    case True
    then have ys: "?ys = filter acceptable analyzed_days" using e by simp
    have "60 \<le> score_or_0 (ad_score best)"
      using m ys by (simp add: acceptable_def)
    moreover have "\<forall>d \<in> set analyzed_days.
                     60 \<le> score_or_0 (ad_score d)
                       \<longrightarrow> score_or_0 (ad_score d) \<le> score_or_0 (ad_score best)"
      using mx ys by (simp add: acceptable_def)
    ultimately show ?thesis
      using True in_all fb by (intro exI [of _ best]) (simp add: day_of_analysis_def)
  next
    case False
    then have ys: "?ys = analyzed_days" using e by simp
    have "\<forall>d \<in> set analyzed_days. score_or_0 (ad_score d) \<le> score_or_0 (ad_score best)"
      using mx ys by simp
    then show ?thesis
      using False in_all fb by (intro exI [of _ best]) (simp add: day_of_analysis_def)
  qed
qed

theorem find_best_wash_day_maximal_witness:
  "[day_45, day_30] \<noteq> []
   \<and> 0 \<le> score_or_0 (ad_score day_45) \<and> score_or_0 (ad_score day_45) \<le> 100
   \<and> 0 \<le> score_or_0 (ad_score day_30) \<and> score_or_0 (ad_score day_30) \<le> 100
   \<and> find_best_wash_day [day_45, day_30] = Inr (Some (day_of_analysis day_45))
   \<and> rd_score (day_of_analysis day_45) = 45
   \<and> rd_is_recommended (day_of_analysis day_45) = False
   \<and> score_or_0 (ad_score day_30) \<le> rd_score (day_of_analysis day_45)"
proof -
  have h: "\<forall>d \<in> set [day_45, day_30]. 0 \<le> score_or_0 (ad_score d) \<and> score_or_0 (ad_score d) \<le> 100"
    by (simp add: day_45_def day_30_def truthy_def score_or_0_def)
  from find_best_wash_day_maximal [of "[day_45, day_30]", OF _ h]
  obtain best where
    "find_best_wash_day [day_45, day_30] = Inr (Some (day_of_analysis best))"
    "\<forall>d \<in> set [day_45, day_30]. score_or_0 (ad_score d) \<le> score_or_0 (ad_score best)"
    "best \<in> set [day_45, day_30]"
    by (auto simp: day_45_def day_30_def truthy_def score_or_0_def split: if_splits)
  then show ?thesis
    using h
    by (auto simp: day_45_def day_30_def truthy_def score_or_0_def day_of_analysis_def)
qed
subsection \<open>The ideal day\<close>

lemma exp_minus_half_ge: "(1 / 2 :: real) \<le> exp (- (1 / 2))"
  using exp_ge_add_one_self [of "- (1 / 2) :: real"] by simp

lemma ideal_score_ge_80:
  "80 \<le> calculate_score (Some 20) (Some (1 / 10)) (Some 10) (Some 50) False True True"
proof -
  have "calculate_score (Some 20) (Some (1 / 10)) (Some 10) (Some 50) False True True
          = max 0 (min 100 (40 * exp (- (1 / 2)) + 60))"
    by (simp add: calculate_score_def WEIGHT_PRECIPITATION_def WEIGHT_TEMPERATURE_def
          WEIGHT_WIND_def WEIGHT_HUMIDITY_def)
  moreover have "80 \<le> 40 * exp (- (1 / 2 :: real)) + 60"
    using exp_minus_half_ge by simp
  ultimately show ?thesis by simp
qed

lemma generate_reason_excellent:
  "80 \<le> score \<Longrightarrow>
   generate_reason ops False True True (Some p) (Some t) (Some w) score None = STR_EXCELLENT"
  by (simp add: generate_reason_def)

text \<open>
  Claim C3. For a day with temperature 20, precipitation probability 0.1, wind speed 10
  and humidity 50, and no user context, \<open>analyze_weather_day\<close> reports no rain expected,
  an optimal temperature and acceptable wind, a score of at least 80, and the reason text
  is (hence contains) the phrase \<open>STR_EXCELLENT\<close>.
\<close>

theorem analyze_ideal_day:
  "wd_temperature_avg wd = Some 20 \<Longrightarrow>
   wd_precipitation_probability wd = Some (1 / 10) \<Longrightarrow>
   wd_wind_speed wd = Some 10 \<Longrightarrow>
   wd_humidity wd = Some 50 \<Longrightarrow>
   (let r = analyze_weather_day ops wd None
    in ad_is_rain_expected r = False
       \<and> ad_is_temperature_optimal r = True
       \<and> ad_is_wind_acceptable r = True
       \<and> (\<exists>s. ad_score r = Some s \<and> 80 \<le> s)
       \<and> ad_reason r = Some STR_EXCELLENT
       \<and> (\<exists>reason. ad_reason r = Some reason \<and> sublist STR_EXCELLENT reason))"
  using ideal_score_ge_80
  by (simp add: analyze_weather_day_def Let_def MIN_PRECIPITATION_THRESHOLD_def
        IDEAL_WASH_TEMPERATURE_MIN_def IDEAL_WASH_TEMPERATURE_MAX_def WIND_SPEED_THRESHOLD_def
        generate_reason_excellent)

theorem analyze_ideal_day_witness:
  "wd_temperature_avg ideal_day = Some 20
   \<and> wd_precipitation_probability ideal_day = Some (1 / 10)
   \<and> wd_wind_speed ideal_day = Some 10
   \<and> wd_humidity ideal_day = Some 50
   \<and> (\<forall>ops. ad_reason (analyze_weather_day ops ideal_day None) = Some STR_EXCELLENT
            \<and> ad_is_rain_expected (analyze_weather_day ops ideal_day None) = False
            \<and> ad_is_temperature_optimal (analyze_weather_day ops ideal_day None) = True
            \<and> ad_is_wind_acceptable (analyze_weather_day ops ideal_day None) = True)"
  using analyze_ideal_day [of ideal_day]
  by (simp add: ideal_day_def Let_def)

section \<open>Wash advisor: properties of the recommendation cache\<close>

subsection \<open>Cache lookup\<close>

lemma get_cached_recommendation_sorted:
  "get_cached_recommendation now session u l days =
     (case sort_key (\<lambda>r. - wr_created_at r)
             (filter (cache_candidate now u l) session) of
        [] \<Rightarrow> None | r # _ \<Rightarrow> Some r)"
proof -
  have f: "filter (\<lambda>r. wr_user_id r = u \<and> wr_location r = l
                     \<and> now - hours CACHE_RECOMMENDATION_HOURS \<le> wr_created_at r
                     \<and> wr_is_recommended r = Some True) session
           = filter (cache_candidate now u l) session"
    by (rule filter_cong)
       (simp_all add: cache_candidate_def hours_def CACHE_RECOMMENDATION_HOURS_def)
  show ?thesis
    unfolding get_cached_recommendation_def Let_def f
    by (cases "sort_key (\<lambda>r. - wr_created_at r) (filter (cache_candidate now u l) session)")
       simp_all
qed

text \<open>
  Claim C4. For every stored set of recommendations, \<open>get_cached_recommendation\<close> returns
  a stored row for the user and location that was created within the last 24 hours
  (\<open>CACHE_RECOMMENDATION_HOURS\<close>) and is flagged recommended, and that is the most recent
  such row; it returns nothing exactly when no row qualifies. A row whose flag is not true
  is never returned, whatever its age.
\<close>

theorem get_cached_recommendation_spec:
  "(case get_cached_recommendation now session user_id location days of
      Some r \<Rightarrow>
        r \<in> set session \<and> cache_candidate now user_id location r
        \<and> (\<forall>r' \<in> set session.
              cache_candidate now user_id location r' \<longrightarrow> wr_created_at r' \<le> wr_created_at r)
    | None \<Rightarrow> \<forall>r \<in> set session. \<not> cache_candidate now user_id location r)
   \<and> (\<forall>r. wr_is_recommended r \<noteq> Some True
          \<longrightarrow> get_cached_recommendation now session user_id location days \<noteq> Some r)"
proof -
  let ?cs = "filter (cache_candidate now user_id location) session"
  have main: "case get_cached_recommendation now session user_id location days of
      Some r \<Rightarrow>
        r \<in> set session \<and> cache_candidate now user_id location r
        \<and> (\<forall>r' \<in> set session.
              cache_candidate now user_id location r' \<longrightarrow> wr_created_at r' \<le> wr_created_at r)
    | None \<Rightarrow> \<forall>r \<in> set session. \<not> cache_candidate now user_id location r"
  proof (cases "?cs = []")
    case True
    then have "get_cached_recommendation now session user_id location days = None"
      by (simp add: get_cached_recommendation_sorted)
    moreover from True have "\<forall>r \<in> set session. \<not> cache_candidate now user_id location r"
      by (simp add: filter_empty_conv)
    ultimately show ?thesis by simp
  next
    case False
    from hd_sort_key_min [OF False, of "\<lambda>r. - wr_created_at r"]
    obtain b bs where
      s: "sort_key (\<lambda>r. - wr_created_at r) ?cs = b # bs"
      and m: "b \<in> set ?cs"
      and mx: "\<forall>x \<in> set ?cs. wr_created_at x \<le> wr_created_at b"
      by auto
    have "get_cached_recommendation now session user_id location days = Some b"
      by (simp add: get_cached_recommendation_sorted s)
    then show ?thesis using m mx by simp
  qed
  have "\<forall>r. wr_is_recommended r \<noteq> Some True
          \<longrightarrow> get_cached_recommendation now session user_id location days \<noteq> Some r"
  proof (intro allI impI notI)
    fix r assume n: "wr_is_recommended r \<noteq> Some True"
      and e: "get_cached_recommendation now session user_id location days = Some r"
    from main e have "cache_candidate now user_id location r" by simp
    with n show False by (simp add: cache_candidate_def)
  qed
  with main show ?thesis by blast
qed

lemma sample_lookup:
  "get_cached_recommendation 200000 sample_session ''u1'' ''Moscow'' 7
     = Some (sample_rec 150000 True)"
  by (simp add: get_cached_recommendation_def sample_session_def sample_rec_def
        hours_def CACHE_RECOMMENDATION_HOURS_def)

theorem get_cached_recommendation_spec_witness:
  "get_cached_recommendation 200000 sample_session ''u1'' ''Moscow'' 7
     = Some (sample_rec 150000 True)
   \<and> cache_candidate 200000 ''u1'' ''Moscow'' (sample_rec 150000 True)
   \<and> \<not> cache_candidate 200000 ''u1'' ''Moscow'' (sample_rec 10000 True)
   \<and> \<not> cache_candidate 200000 ''u1'' ''Moscow'' (sample_rec 190000 False)
   \<and> get_cached_recommendation 200000 sample_session ''u1'' ''Moscow'' 7
       \<noteq> Some (sample_rec 190000 False)"
  using get_cached_recommendation_spec
          [where now = 200000 and session = sample_session and user_id = "''u1''"
             and location = "''Moscow''" and days = 7]
  by (simp add: sample_lookup cache_candidate_def sample_rec_def)

subsection \<open>Responses served from the cache\<close>

lemma cached_is_recommended:
  "get_cached_recommendation now session u l days = Some r \<Longrightarrow>
     r \<in> set session \<and> wr_is_recommended r = Some True"
proof -
  assume e: "get_cached_recommendation now session u l days = Some r"
  let ?cs = "filter (cache_candidate now u l) session"
  from e obtain bs where "sort_key (\<lambda>r. - wr_created_at r) ?cs = r # bs"
    by (auto simp: get_cached_recommendation_sorted split: list.splits)
  then have "r \<in> set (sort_key (\<lambda>r. - wr_created_at r) ?cs)" by simp
  then have "r \<in> set ?cs" by simp
  then show ?thesis by (simp add: cache_candidate_def)
qed

text \<open>
  Claim C9. Every response of \<open>get_wash_recommendation\<close> with \<open>cached = True\<close> has
  exactly one entry in \<open>all_days\<close>, the day built from the cached row, and its
  \<open>best_day\<close> is present and equal to that entry, because the cache lookup only
  returns rows flagged as recommended.
\<close>

theorem cache_hit_response:
  assumes "get_wash_recommendation now session request info context_metrics fresh = Inr resp"
      and "resp_cached resp"
  shows "\<exists>rec d.
           get_cached_recommendation now session (req_user_id request) (resp_location resp)
             (req_days request) = Some rec
         \<and> rec \<in> set session
         \<and> resp_all_days resp = [d]
         \<and> resp_best_day resp = Some d
         \<and> rd_date d = wr_recommendation_date rec
         \<and> rd_is_recommended d
         \<and> wr_score rec = Some (rd_score d)"
proof -
  from assms obtain ui location where
    i: "info = Some ui" and c: "ui_city ui = Some location" and ne: "location \<noteq> []"
    by (auto simp: get_wash_recommendation_def split: option.splits if_splits)
  show ?thesis
  proof (cases "req_force_refresh request")
    case True
    with assms i c ne show ?thesis
      by (auto simp: get_wash_recommendation_def split: sum.splits prod.splits)
  next
    case False
    show ?thesis
    proof (cases "get_cached_recommendation now session (req_user_id request) location
                    (req_days request)")
      case None
      with assms i c ne False show ?thesis
        by (auto simp: get_wash_recommendation_def split: sum.splits prod.splits)
    next
      case (Some rec)
      from cached_is_recommended [OF Some]
      have r: "rec \<in> set session" "wr_is_recommended rec = Some True" by simp_all
      from assms i c ne False Some r show ?thesis
        by (auto simp: get_wash_recommendation_def WashRecommendationDay_def
              split: sum.splits option.splits if_splits)
    qed
  qed
qed

theorem cache_hit_response_witness:
  "get_wash_recommendation 200000 sample_session sample_request (Some sample_user_info)
      None (Inl (HTTPError 404)) = Inr sample_response
   \<and> resp_cached sample_response
   \<and> resp_all_days sample_response = [sample_cached_day]
   \<and> resp_best_day sample_response = Some sample_cached_day"
proof -
  have r: "get_wash_recommendation 200000 sample_session sample_request (Some sample_user_info)
             None (Inl (HTTPError 404)) = Inr sample_response"
    by (simp add: get_wash_recommendation_def sample_request_def sample_user_info_def
          sample_lookup WashRecommendationDay_def sample_rec_def sample_response_def
          sample_cached_day_def reason_or_empty_def)
  have c: "resp_cached sample_response"
    by (simp add: sample_response_def)
  from cache_hit_response [OF r c] r c show ?thesis
    by (simp add: sample_response_def)
qed

section \<open>Weather service: properties\<close>

subsection \<open>Age of the rows served from the forecast cache\<close>

text \<open>
  Claim C5. The claim says that \<open>get_cached_forecast\<close> returns the cached rows of the
  location created at or after (now minus the TTL in hours), so that a row created more
  than TTL hours ago is excluded. The code truncates the limit to its date before
  comparing: with a TTL of one hour, at 10:00 a row created at 00:30 of the same day,
  nine and a half hours old, is still returned.
\<close>

theorem get_cached_forecast_stale_row:
  "wf_created_at stale_forecast < ten_o_clock - hours 1
   \<and> wf_location_id stale_forecast = ''loc1''
   \<and> wf_is_cached stale_forecast
   \<and> get_cached_forecast ten_o_clock 1 [stale_forecast] ''loc1'' 10 = Some [stale_forecast]"
  by (simp add: get_cached_forecast_def stale_forecast_def ten_o_clock_def hours_def
        date_of_def midnight_def)

subsection \<open>Rain probability in the parsed forecast\<close>






subsection \<open>Size of the forecast in the response\<close>

lemma forecast_days_of_length:
  "forecast_days_of fs = Inr ds \<Longrightarrow> length ds = length fs"
  by (induction fs arbitrary: ds) (auto split: sum.splits)

lemma forecast_days_of_dates:
  "forecast_days_of fs = Inr ds \<Longrightarrow> map frd_date ds = map wf_date fs"
  by (induction fs arbitrary: ds)
     (auto simp: ForecastResponseDay_def split: sum.splits if_splits)

lemma slice_to_length: "0 \<le> n \<Longrightarrow> length (slice_to xs n) \<le> nat n"
  by (simp add: slice_to_def)

text \<open>
  Claim C10. Every successful response of \<open>get_weather_forecast\<close> for \<open>days = N\<close> carries
  at most \<open>N\<close> forecast entries, and they are the first \<open>N\<close> rows of the list the handler
  obtained, in order: the list returned by the cache lookup when the response is served
  from the cache, the list returned by the upsert of the parsed provider answer
  otherwise. The response days are the conversion of exactly \<open>take N\<close> of that list, so a
  longer list is cut and a shorter one is kept whole. In the example that follows the
  provider answers two days to a request for one.
\<close>

theorem get_weather_forecast_at_most_days:
  assumes "get_weather_forecast env session city days = Inr (session', response)"
  shows "1 \<le> days \<and> days \<le> 14
       \<and> int (length (fr_forecast response)) \<le> days
       \<and> (\<exists>forecasts_data.
             ((fr_cached response
                \<and> (\<exists>location.
                      env_found_location env = Some location
                    \<and> get_cached_forecast (env_now env) (env_ttl_hours env) session
                          (loc_id location) days = Some forecasts_data))
              \<or> (\<not> fr_cached response
                \<and> (\<exists>location raw_data.
                      env_created_location env = Inr (Some location)
                    \<and> env_raw_data env = Some raw_data
                    \<and> forecasts_data =
                          snd (create_forecasts (env_strptime env) (env_import_time env)
                                 session (loc_id location)
                                 (pdat_forecast_days
                                    (parse_forecast_data (env_py_float env) raw_data))
                                 ''weatherapi''))))
           \<and> forecast_days_of (take (nat days) forecasts_data) = Inr (fr_forecast response)
           \<and> map frd_date (fr_forecast response) = map wf_date (take (nat days) forecasts_data)
           \<and> length (fr_forecast response) = min (nat days) (length forecasts_data))"
proof -
  from assms have d: "1 \<le> days" "days \<le> 14"
    by (auto simp: get_weather_forecast_def split: if_splits)
  from assms d obtain forecasts_data where
    src: "(fr_cached response
            \<and> (\<exists>location.
                  env_found_location env = Some location
                \<and> get_cached_forecast (env_now env) (env_ttl_hours env) session
                      (loc_id location) days = Some forecasts_data))
          \<or> (\<not> fr_cached response
            \<and> (\<exists>location raw_data.
                  env_created_location env = Inr (Some location)
                \<and> env_raw_data env = Some raw_data
                \<and> forecasts_data =
                      snd (create_forecasts (env_strptime env) (env_import_time env)
                             session (loc_id location)
                             (pdat_forecast_days
                                (parse_forecast_data (env_py_float env) raw_data))
                             ''weatherapi'')))"
    and sl: "forecast_days_of (slice_to forecasts_data days) = Inr (fr_forecast response)"
    by (auto simp: get_weather_forecast_def Let_def
             split: sum.splits prod.splits option.splits if_splits)
  from sl d have t: "forecast_days_of (take (nat days) forecasts_data) = Inr (fr_forecast response)"
    by (simp add: slice_to_def)
  from t have dates: "map frd_date (fr_forecast response) = map wf_date (take (nat days) forecasts_data)"
    by (rule forecast_days_of_dates)
  from t have "length (fr_forecast response) = length (take (nat days) forecasts_data)"
    by (rule forecast_days_of_length)
  then have len: "length (fr_forecast response) = min (nat days) (length forecasts_data)"
    by (simp add: min.commute)
  then have "int (length (fr_forecast response)) \<le> days"
    using d by simp
  with d src t dates len show ?thesis by blast
qed

lemma sample_upsert:
  "map wf_date
     (snd (create_forecasts sample_strptime ten_o_clock [] ''loc1''
             (pdat_forecast_days
                (parse_forecast_data float_of_digits
                   (sample_raw [sample_provider_day ''2024-01-20'' (Some (JStr ''60%'')),
                                sample_provider_day ''2024-01-21'' (Some (JNum 30))])))
             ''weatherapi'')) = [19742, 19743]"
  by (simp add: create_forecasts_def parse_forecast_data_def parse_day_def
        chance_of_rain_fraction_def float_of_digits_def remove_percent_def sample_raw_def
        sample_provider_day_def forecast_date_of_def sample_strptime_def new_forecast_def)

lemma sample_run:
  "\<exists>s r. get_weather_forecast sample_env [] ''Moscow'' 1 = Inr (s, r)
         \<and> \<not> fr_cached r"
  by (simp add: get_weather_forecast_def sample_env_def create_forecasts_def
        parse_forecast_data_def parse_day_def
        chance_of_rain_fraction_def float_of_digits_def remove_percent_def sample_raw_def
        sample_provider_day_def forecast_date_of_def sample_strptime_def
        new_forecast_def delete_old_forecasts_def ten_o_clock_def hours_def date_of_def
        midnight_def sample_location_def LocationInDB_from_orm_def slice_to_def
        ForecastResponseDay_def)

theorem get_weather_forecast_at_most_days_witness:
  "\<exists>s r. get_weather_forecast sample_env [] ''Moscow'' 1 = Inr (s, r)
         \<and> map frd_date (fr_forecast r) = [19742]
         \<and> length (fr_forecast r) = 1
         \<and> map wf_date
              (snd (create_forecasts sample_strptime ten_o_clock [] ''loc1''
                      (pdat_forecast_days
                         (parse_forecast_data float_of_digits
                            (sample_raw
                               [sample_provider_day ''2024-01-20'' (Some (JStr ''60%'')),
                                sample_provider_day ''2024-01-21'' (Some (JNum 30))])))
                      ''weatherapi'')) = [19742, 19743]"
proof -
  from sample_run obtain s r where
    run: "get_weather_forecast sample_env [] ''Moscow'' 1 = Inr (s, r)"
    and fresh: "\<not> fr_cached r"
    by (elim exE conjE)
  from get_weather_forecast_at_most_days [OF run] fresh
  obtain forecasts_data where
    fd: "forecasts_data =
           snd (create_forecasts sample_strptime ten_o_clock [] ''loc1''
                  (pdat_forecast_days
                     (parse_forecast_data float_of_digits
                        (sample_raw
                           [sample_provider_day ''2024-01-20'' (Some (JStr ''60%'')),
                            sample_provider_day ''2024-01-21'' (Some (JNum 30))])))
                  ''weatherapi'')"
    and dates: "map frd_date (fr_forecast r) = map wf_date (take (nat 1) forecasts_data)"
    by (auto simp: sample_env_def sample_location_def)
  from fd have all: "map wf_date forecasts_data = [19742, 19743]"
    by (simp only: sample_upsert)
  have "map wf_date (take (nat 1) forecasts_data) = take (nat 1) (map wf_date forecasts_data)"
    by (simp only: take_map)
  with dates all have one: "map frd_date (fr_forecast r) = [19742]"
    by simp
  then have "length (map frd_date (fr_forecast r)) = 1" by simp
  then have len: "length (fr_forecast r) = 1" by simp
  from run one len all fd show ?thesis
    by (intro exI [of _ s] exI [of _ r] conjI) simp_all
qed
subsection \<open>Upsert of forecast rows\<close>

lemma rows_for_match_idx:
  "rows_for s loc d = map (\<lambda>i. s ! i) (match_idx s loc d)"
proof -
  have "filter (\<lambda>f. wf_location_id f = loc \<and> wf_date f = d) (map (\<lambda>i. s ! i) [0 ..< length s])
          = map (\<lambda>i. s ! i)
              (filter ((\<lambda>f. wf_location_id f = loc \<and> wf_date f = d) \<circ> (\<lambda>i. s ! i))
                 [0 ..< length s])"
    by (rule filter_map)
  then show ?thesis
    by (simp add: rows_for_def match_idx_def map_nth comp_def)
qed

lemma match_idx_bound: "i \<in> set (match_idx s loc d) \<Longrightarrow> i < length s"
  by (simp add: match_idx_def)

lemma overwrite_key:
  "wf_location_id (overwrite t f day) = wf_location_id f"
  "wf_date (overwrite t f day) = wf_date f"
  by (simp_all add: overwrite_def)

lemma overwrite_fields:
  "weather_fields_of (overwrite t f day) day" "wf_is_cached (overwrite t f day)"
  by (simp_all add: overwrite_def weather_fields_of_def)

lemma new_forecast_fields:
  "weather_fields_of (new_forecast t loc src d day) day"
  "wf_is_cached (new_forecast t loc src d day)"
  "wf_location_id (new_forecast t loc src d day) = loc"
  "wf_date (new_forecast t loc src d day) = d"
  by (simp_all add: new_forecast_def weather_fields_of_def)

lemma update_nth_key:
  "wf_location_id (s [i := overwrite t (s ! i) day] ! x) = wf_location_id (s ! x)"
  "wf_date (s [i := overwrite t (s ! i) day] ! x) = wf_date (s ! x)"
proof -
  have "wf_location_id (s [i := overwrite t (s ! i) day] ! x) = wf_location_id (s ! x)
        \<and> wf_date (s [i := overwrite t (s ! i) day] ! x) = wf_date (s ! x)"
  proof (cases "i < length s")
    case True
    then show ?thesis by (cases "i = x") (simp_all add: overwrite_key)
  next
    case False
    then have "s [i := overwrite t (s ! i) day] = s"
      by (intro list_update_beyond) simp
    then show ?thesis by simp
  qed
  then show "wf_location_id (s [i := overwrite t (s ! i) day] ! x) = wf_location_id (s ! x)"
    and "wf_date (s [i := overwrite t (s ! i) day] ! x) = wf_date (s ! x)"
    by simp_all
qed

lemma match_idx_update:
  "match_idx (s [i := overwrite t (s ! i) day]) loc d = match_idx s loc d"
  by (simp add: match_idx_def update_nth_key)

lemma match_idx_append_new:
  "match_idx (s @ [new_forecast t loc src d day]) loc d = match_idx s loc d @ [length s]"
proof -
  have "filter (\<lambda>i. wf_location_id ((s @ [new_forecast t loc src d day]) ! i) = loc
                   \<and> wf_date ((s @ [new_forecast t loc src d day]) ! i) = d) [0 ..< length s]
        = filter (\<lambda>i. wf_location_id (s ! i) = loc \<and> wf_date (s ! i) = d) [0 ..< length s]"
    by (rule filter_cong) (auto simp: nth_append)
  then show ?thesis
    by (simp add: match_idx_def new_forecast_fields)
qed

lemma create_forecasts_single:
  assumes "forecast_date_of strptime (fd_date day) = Some (Some d)"
  shows "create_forecasts strptime t s loc [day] src =
           (case scalar_one_or_none (match_idx s loc d) of
              Inl e \<Rightarrow> (s, [])
            | Inr (Some i) \<Rightarrow>
                (s [i := overwrite t (s ! i) day], [s [i := overwrite t (s ! i) day] ! i])
            | Inr None \<Rightarrow>
                (s @ [new_forecast t loc src d day], [new_forecast t loc src d day]))"
  using assms
  by (simp add: create_forecasts_def match_idx_def split: sum.splits option.splits)

lemma scalar_one_or_none_cases:
  "length xs \<le> 1 \<Longrightarrow> (xs = [] \<and> scalar_one_or_none xs = Inr None)
      \<or> (\<exists>x. xs = [x] \<and> scalar_one_or_none xs = Inr (Some x))"
  by (cases xs rule: scalar_one_or_none.cases) auto

lemma first_call:
  assumes "length (rows_for s loc d) \<le> 1"
      and "forecast_date_of strptime (fd_date day) = Some (Some d)"
  shows "\<exists>s1 r1 k. create_forecasts strptime t s loc [day] src = (s1, r1)
           \<and> match_idx s1 loc d = [k] \<and> k < length s1"
proof -
  from assms(1) have "length (match_idx s loc d) \<le> 1"
    by (simp add: rows_for_match_idx)
  from scalar_one_or_none_cases [OF this] show ?thesis
  proof (elim disjE conjE exE)
    assume e: "match_idx s loc d = []" "scalar_one_or_none (match_idx s loc d) = Inr None"
    then show ?thesis
      using create_forecasts_single [OF assms(2), of t s loc src]
      by (simp add: match_idx_append_new)
  next
    fix i assume e: "match_idx s loc d = [i]"
      "scalar_one_or_none (match_idx s loc d) = Inr (Some i)"
    then have "i < length s" using match_idx_bound [of i s loc d] by simp
    with e show ?thesis
      using create_forecasts_single [OF assms(2), of t s loc src]
      by (simp add: match_idx_update)
  qed
qed

lemma second_call:
  assumes "match_idx s1 loc d = [k]" "k < length s1"
      and "forecast_date_of strptime (fd_date day) = Some (Some d)"
  shows "create_forecasts strptime t s1 loc [day] src
           = (s1 [k := overwrite t (s1 ! k) day], [overwrite t (s1 ! k) day])
         \<and> rows_for (s1 [k := overwrite t (s1 ! k) day]) loc d = [overwrite t (s1 ! k) day]"
  using assms create_forecasts_single [OF assms(3), of t s1 loc src]
  by (simp add: rows_for_match_idx match_idx_update)

lemma loop_skips_unparseable:
  "create_forecasts_loop strptime t loc src days s acc
     = create_forecasts_loop strptime t loc src (filter (parseable strptime) days) s acc"
proof (induction days arbitrary: s acc)
  case Nil
  then show ?case by simp
next
  case (Cons day days)
  show ?case
  proof (cases "forecast_date_of strptime (fd_date day)")
    case None
    then show ?thesis using Cons.IH by (simp add: parseable_def)
  next
    case (Some v)
    then show ?thesis
      using Cons.IH
      by (cases v) (simp_all add: parseable_def split: sum.splits option.splits)
  qed
qed

lemma loop_length:
  "create_forecasts_loop strptime t loc src days s acc = Inr (s', fs) \<Longrightarrow>
     length fs = length acc + length (filter (parseable strptime) days)"
proof (induction days arbitrary: s acc)
  case Nil
  then show ?case by simp
next
  case (Cons day days)
  show ?case
  proof (cases "forecast_date_of strptime (fd_date day)")
    case None
    with Cons show ?thesis by (simp add: parseable_def)
  next
    case (Some v)
    show ?thesis
    proof (cases v)
      case None
      with Some Cons.prems show ?thesis by simp
    next
      case (Some d)
      with \<open>forecast_date_of strptime (fd_date day) = Some v\<close> Cons.prems
      show ?thesis
        by (auto simp: parseable_def split: sum.splits option.splits dest!: Cons.IH)
    qed
  qed
qed

lemma create_forecasts_length:
  "length (snd (create_forecasts strptime t s loc days src))
     \<le> length (filter (parseable strptime) days)"
  by (auto simp: create_forecasts_def split: sum.splits dest: loop_length)

text \<open>
  Claim C6. Calling \<open>create_forecasts\<close> twice for the same location and date (the
  session holding at most one row for them beforehand) leaves one row for that location
  and date after the first call, and the second call changes no row count: it overwrites
  that row in place with the second day's weather fields, marks it cached and returns
  it, so reading the location and date back gives the second call's values. For any list
  of days, the days whose date string cannot be parsed are skipped: the call behaves as
  on the list without them, and the returned list is no longer than that list.
\<close>

theorem create_forecasts_upsert:
  assumes "length (rows_for session location_id d) \<le> 1"
      and "forecast_date_of strptime (fd_date first_day) = Some (Some d)"
      and "forecast_date_of strptime (fd_date second_day) = Some (Some d)"
  shows "(\<exists>s1 r1 k row.
            create_forecasts strptime t session location_id [first_day] source = (s1, r1)
          \<and> create_forecasts strptime t s1 location_id [second_day] source
                = (s1 [k := row], [row])
          \<and> k < length s1
          \<and> length (s1 [k := row]) = length s1
          \<and> length (rows_for s1 location_id d) = 1
          \<and> rows_for (s1 [k := row]) location_id d = [row]
          \<and> weather_fields_of row second_day
          \<and> wf_is_cached row)
       \<and> create_forecasts strptime t session location_id days source
           = create_forecasts strptime t session location_id
               (filter (parseable strptime) days) source
       \<and> length (snd (create_forecasts strptime t session location_id days source))
           \<le> length (filter (parseable strptime) days)"
proof -
  from first_call [OF assms(1,2), of t source]
  obtain s1 r1 k where
    c1: "create_forecasts strptime t session location_id [first_day] source = (s1, r1)"
    and m: "match_idx s1 location_id d = [k]" and k: "k < length s1"
    by blast
  let ?row = "overwrite t (s1 ! k) second_day"
  from second_call [OF m k assms(3), of t source]
  have c2: "create_forecasts strptime t s1 location_id [second_day] source
              = (s1 [k := ?row], [?row])"
    and r: "rows_for (s1 [k := ?row]) location_id d = [?row]"
    by simp_all
  have one: "length (rows_for s1 location_id d) = 1"
    by (simp add: rows_for_match_idx m)
  have part1: "\<exists>s1 r1 k row.
            create_forecasts strptime t session location_id [first_day] source = (s1, r1)
          \<and> create_forecasts strptime t s1 location_id [second_day] source
                = (s1 [k := row], [row])
          \<and> k < length s1
          \<and> length (s1 [k := row]) = length s1
          \<and> length (rows_for s1 location_id d) = 1
          \<and> rows_for (s1 [k := row]) location_id d = [row]
          \<and> weather_fields_of row second_day
          \<and> wf_is_cached row"
    using c1 c2 k one r overwrite_fields [of t "s1 ! k" second_day]
    by (intro exI [of _ s1] exI [of _ r1] exI [of _ k] exI [of _ ?row]) simp
  have part2: "create_forecasts strptime t session location_id days source
           = create_forecasts strptime t session location_id
               (filter (parseable strptime) days) source"
    by (simp add: create_forecasts_def loop_skips_unparseable [of strptime t location_id source days])
  from part1 part2 create_forecasts_length [of strptime t session location_id days source]
  show ?thesis by blast
qed


lemma sample_dates:
  "forecast_date_of sample_strptime (fd_date initial_day) = Some (Some 19742)"
  "forecast_date_of sample_strptime (fd_date updated_day) = Some (Some 19742)"
  "forecast_date_of sample_strptime (fd_date malformed_day) = None"
  by (simp_all add: forecast_date_of_def sample_strptime_def initial_day_def updated_day_def
        malformed_day_def sample_forecast_day_def)

lemma sample_first_call:
  "create_forecasts sample_strptime 0 [] ''loc1'' [initial_day] ''weatherapi''
     = ([new_forecast 0 ''loc1'' ''weatherapi'' 19742 initial_day],
        [new_forecast 0 ''loc1'' ''weatherapi'' 19742 initial_day])"
  by (simp add: create_forecasts_def sample_dates)

lemma sample_second_call:
  "create_forecasts sample_strptime 0 [new_forecast 0 ''loc1'' ''weatherapi'' 19742 initial_day]
       ''loc1'' [updated_day] ''weatherapi''
     = ([overwrite 0 (new_forecast 0 ''loc1'' ''weatherapi'' 19742 initial_day) updated_day],
        [overwrite 0 (new_forecast 0 ''loc1'' ''weatherapi'' 19742 initial_day) updated_day])"
  by (simp add: create_forecasts_def sample_dates new_forecast_fields)

lemma sample_skip_call:
  "snd (create_forecasts sample_strptime 0 [] ''loc1'' [malformed_day, initial_day] ''weatherapi'')
     = [new_forecast 0 ''loc1'' ''weatherapi'' 19742 initial_day]"
  by (simp add: create_forecasts_def sample_dates)

theorem create_forecasts_upsert_witness:
  "length (rows_for [] ''loc1'' 19742) \<le> 1
   \<and> forecast_date_of sample_strptime (fd_date initial_day) = Some (Some 19742)
   \<and> forecast_date_of sample_strptime (fd_date updated_day) = Some (Some 19742)
   \<and> forecast_date_of sample_strptime (fd_date malformed_day) = None
   \<and> (\<exists>s1 r1 s2 row.
          create_forecasts sample_strptime 0 [] ''loc1'' [initial_day] ''weatherapi'' = (s1, r1)
        \<and> create_forecasts sample_strptime 0 s1 ''loc1'' [updated_day] ''weatherapi''
              = (s2, [row])
        \<and> length s1 = 1 \<and> length s2 = 1
        \<and> rows_for s2 ''loc1'' 19742 = [row]
        \<and> wf_temperature_avg row = Some (- 5)
        \<and> wf_precipitation_probability row = Some (1 / 2))
   \<and> filter (parseable sample_strptime) [malformed_day, initial_day] = [initial_day]
   \<and> snd (create_forecasts sample_strptime 0 [] ''loc1'' [malformed_day, initial_day]
            ''weatherapi'')
       = [new_forecast 0 ''loc1'' ''weatherapi'' 19742 initial_day]"
proof -
  have h: "length (rows_for [] ''loc1'' 19742) \<le> 1"
    by (simp add: rows_for_def)
  from create_forecasts_upsert
         [OF h sample_dates(1) sample_dates(2), of 0 "''weatherapi''" "[malformed_day, initial_day]"]
  obtain s1 r1 k row where
    c1: "create_forecasts sample_strptime 0 [] ''loc1'' [initial_day] ''weatherapi'' = (s1, r1)"
    and c2: "create_forecasts sample_strptime 0 s1 ''loc1'' [updated_day] ''weatherapi''
              = (s1 [k := row], [row])"
    and r: "rows_for (s1 [k := row]) ''loc1'' 19742 = [row]"
    and f: "weather_fields_of row updated_day"
    by (elim conjE exE)
  from c1 have s1: "s1 = [new_forecast 0 ''loc1'' ''weatherapi'' 19742 initial_day]"
    by (simp add: sample_first_call)
  have t: "wf_temperature_avg row = Some (- 5)"
          "wf_precipitation_probability row = Some (1 / 2)"
    using f by (simp_all add: weather_fields_of_def updated_day_def sample_forecast_day_def)
  have ex: "\<exists>s1 r1 s2 row.
          create_forecasts sample_strptime 0 [] ''loc1'' [initial_day] ''weatherapi'' = (s1, r1)
        \<and> create_forecasts sample_strptime 0 s1 ''loc1'' [updated_day] ''weatherapi''
              = (s2, [row])
        \<and> length s1 = 1 \<and> length s2 = 1
        \<and> rows_for s2 ''loc1'' 19742 = [row]
        \<and> wf_temperature_avg row = Some (- 5)
        \<and> wf_precipitation_probability row = Some (1 / 2)"
  proof (rule exI [of _ s1], rule exI [of _ r1], rule exI [of _ "s1 [k := row]"],
         rule exI [of _ row], intro conjI)
    show "length s1 = 1" using s1 by simp
    then show "length (s1 [k := row]) = 1" by simp
  qed (fact c1 c2 r t)+
  have p: "filter (parseable sample_strptime) [malformed_day, initial_day] = [initial_day]"
    by (simp add: parseable_def sample_dates)
  from h ex p show ?thesis
    by (simp only: sample_dates sample_skip_call simp_thms)
qed

section \<open>User service: properties\<close>

subsection \<open>Uniqueness of user names and e-mail addresses\<close>

lemma scalar_one_or_none_Some:
  "scalar_one_or_none xs = Inr (Some x) \<Longrightarrow> xs = [x]"
  by (cases xs rule: scalar_one_or_none.cases) simp_all

lemma get_user_by_username_None:
  "\<forall>u \<in> set session. u_username u \<noteq> username \<Longrightarrow> get_user_by_username session username = None"
proof -
  assume "\<forall>u \<in> set session. u_username u \<noteq> username"
  then have "filter (\<lambda>u. u_username u = username) session = []"
    by (simp add: filter_empty_conv)
  then show ?thesis by (simp add: get_user_by_username_def)
qed

lemma get_user_by_email_None:
  "\<forall>u \<in> set session. u_email u \<noteq> email \<Longrightarrow> get_user_by_email session email = None"
proof -
  assume "\<forall>u \<in> set session. u_email u \<noteq> email"
  then have "filter (\<lambda>u. u_email u = email) session = []"
    by (simp add: filter_empty_conv)
  then show ?thesis by (simp add: get_user_by_email_def)
qed

lemma create_user_rejects:
  assumes "\<exists>u \<in> set session. u_username u = uc_username user_data \<or> u_email u = uc_email user_data"
  shows "create_user hash_password generate_uuid today session user_data = (session, None)"
proof -
  have "add_and_commit session
          \<lparr> u_id = generate_uuid, u_email = uc_email user_data,
            u_username = uc_username user_data,
            u_hashed_password = hash_password (uc_password user_data),
            u_city = uc_city user_data, u_country = uc_country user_data,
            u_last_wash_date = None,
            u_preferred_wash_interval = uc_preferred_wash_interval user_data,
            u_created_at = today, u_updated_at = None \<rparr> = Inl IntegrityError"
    using assms by (auto simp: add_and_commit_def list_ex_iff)
  then show ?thesis
    by (simp add: create_user_def Let_def split: option.splits)
qed

lemma create_user_accepts:
  assumes "\<forall>u \<in> set session. u_username u \<noteq> uc_username user_data \<and> u_email u \<noteq> uc_email user_data"
      and "\<forall>u \<in> set session. u_id u \<noteq> generate_uuid"
  shows "create_user hash_password generate_uuid today session user_data =
           (session @
              [\<lparr> u_id = generate_uuid, u_email = uc_email user_data,
                 u_username = uc_username user_data,
                 u_hashed_password = hash_password (uc_password user_data),
                 u_city = uc_city user_data, u_country = uc_country user_data,
                 u_last_wash_date = None,
                 u_preferred_wash_interval = uc_preferred_wash_interval user_data,
                 u_created_at = today, u_updated_at = None \<rparr>],
            Some \<lparr> u_id = generate_uuid, u_email = uc_email user_data,
                 u_username = uc_username user_data,
                 u_hashed_password = hash_password (uc_password user_data),
                 u_city = uc_city user_data, u_country = uc_country user_data,
                 u_last_wash_date = None,
                 u_preferred_wash_interval = uc_preferred_wash_interval user_data,
                 u_created_at = today, u_updated_at = None \<rparr>)"
proof -
  from assms(1) have n: "get_user_by_username session (uc_username user_data) = None"
    and e: "get_user_by_email session (uc_email user_data) = None"
    by (simp_all add: get_user_by_username_None get_user_by_email_None)
  have "\<not> list_ex (\<lambda>u. u_id u = generate_uuid
                     \<or> u_email u = uc_email user_data
                     \<or> u_username u = uc_username user_data) session"
    using assms by (auto simp: list_ex_iff)
  then show ?thesis
    by (simp add: create_user_def n e add_and_commit_def Let_def)
qed

text \<open>
  Claim C7. For every session and registration, \<open>create_user\<close> returns nothing and
  leaves the session as it was whenever the requested user name or e-mail address is
  already stored; otherwise (the generated identifier being fresh) it appends exactly one
  row, carrying that identifier, the hashed password and the registration's fields, and
  returns it. No branch raises: every exception ends in the \<^verbatim>\<open>except\<close> clause.
\<close>

theorem create_user_unique:
  "((\<exists>u \<in> set session.
        u_username u = uc_username user_data \<or> u_email u = uc_email user_data)
      \<longrightarrow> create_user hash_password generate_uuid today session user_data = (session, None))
   \<and> ((\<forall>u \<in> set session.
          u_username u \<noteq> uc_username user_data \<and> u_email u \<noteq> uc_email user_data)
        \<and> (\<forall>u \<in> set session. u_id u \<noteq> generate_uuid)
      \<longrightarrow> (\<exists>new_user.
             create_user hash_password generate_uuid today session user_data
               = (session @ [new_user], Some new_user)
           \<and> u_id new_user = generate_uuid
           \<and> u_hashed_password new_user = hash_password (uc_password user_data)
           \<and> u_username new_user = uc_username user_data
           \<and> u_email new_user = uc_email user_data
           \<and> u_city new_user = uc_city user_data
           \<and> u_country new_user = uc_country user_data
           \<and> u_preferred_wash_interval new_user = uc_preferred_wash_interval user_data))"
proof (intro conjI impI)
  assume "\<exists>u \<in> set session.
        u_username u = uc_username user_data \<or> u_email u = uc_email user_data"
  then show "create_user hash_password generate_uuid today session user_data = (session, None)"
    by (rule create_user_rejects)
next
  assume a: "(\<forall>u \<in> set session.
          u_username u \<noteq> uc_username user_data \<and> u_email u \<noteq> uc_email user_data)
        \<and> (\<forall>u \<in> set session. u_id u \<noteq> generate_uuid)"
  then have a1: "\<forall>u \<in> set session.
          u_username u \<noteq> uc_username user_data \<and> u_email u \<noteq> uc_email user_data"
    and a2: "\<forall>u \<in> set session. u_id u \<noteq> generate_uuid"
    by simp_all
  show "\<exists>new_user.
             create_user hash_password generate_uuid today session user_data
               = (session @ [new_user], Some new_user)
           \<and> u_id new_user = generate_uuid
           \<and> u_hashed_password new_user = hash_password (uc_password user_data)
           \<and> u_username new_user = uc_username user_data
           \<and> u_email new_user = uc_email user_data
           \<and> u_city new_user = uc_city user_data
           \<and> u_country new_user = uc_country user_data
           \<and> u_preferred_wash_interval new_user = uc_preferred_wash_interval user_data"
    using create_user_accepts [OF a1 a2, of hash_password today] by simp
qed

theorem create_user_unique_witness:
  "u_username stored_user = uc_username duplicate_registration
   \<and> create_user sample_hash ''id-2'' 101 [stored_user] duplicate_registration
       = ([stored_user], None)
   \<and> u_username stored_user \<noteq> uc_username new_registration
   \<and> u_email stored_user \<noteq> uc_email new_registration
   \<and> u_id stored_user \<noteq> ''id-2''
   \<and> length (fst (create_user sample_hash ''id-2'' 101 [stored_user] new_registration)) = 2
   \<and> map_option u_id (snd (create_user sample_hash ''id-2'' 101 [stored_user] new_registration))
       = Some ''id-2''
   \<and> map_option u_hashed_password
        (snd (create_user sample_hash ''id-2'' 101 [stored_user] new_registration))
       = Some (sample_hash ''newpass123'')"
  using create_user_unique
          [where session = "[stored_user]" and user_data = duplicate_registration
             and hash_password = sample_hash and generate_uuid = "''id-2''" and today = 101]
        create_user_unique
          [where session = "[stored_user]" and user_data = new_registration
             and hash_password = sample_hash and generate_uuid = "''id-2''" and today = 101]
  by (auto simp: stored_user_def duplicate_registration_def new_registration_def)

end
